theory Spec2Isabelle
  imports Complex_Main
begin

section \<open>Python values: exceptions, truthiness, indexing\<close>

text \<open>
  The development embeds \<^verbatim>\<open>models/networks.py\<close>.  Every \<^verbatim>\<open>raise\<close>, failed
  \<^verbatim>\<open>assert\<close> and failing built-in of the source is a value \<open>Inl e\<close> of a sum type;
  \<open>Inr v\<close> is a normal return.
\<close>

datatype error =
    AssertionError string
  | NotImplementedError string
  | IndexError
  | TypeError
  | UnboundLocalError string
  | ZeroDivisionError
  | OverflowError
  | ValueError string
  | RuntimeError string

text \<open>Sequencing of fallible, state-free steps (object construction).\<close>

definition ebind :: "error + 'a \<Rightarrow> ('a \<Rightarrow> error + 'b) \<Rightarrow> error + 'b" where
  "ebind m f = (case m of Inl e \<Rightarrow> Inl e | Inr a \<Rightarrow> f a)"

text \<open>
  A flag of the source that may also be \<^verbatim>\<open>None\<close> (the encoder's keyword defaults) is a
  \<open>bool option\<close>; \<open>truthy\<close> is Python's truth test on it.
\<close>

type_synonym py_bool = "bool option"

definition truthy :: "py_bool \<Rightarrow> bool" where
  "truthy b = (b = Some True)"

text \<open>\<^verbatim>\<open>xs[i]\<close>: a negative index counts from the end; out of range raises.\<close>

definition py_index :: "'a list \<Rightarrow> int \<Rightarrow> error + 'a" where
  "py_index xs i =
     (if 0 \<le> i \<and> i < int (length xs) then Inr (xs ! nat i)
      else if i < 0 \<and> - int (length xs) \<le> i then Inr (xs ! nat (int (length xs) + i))
      else Inl IndexError)"

section \<open>Loss selection\<close>

datatype loss = CrossEntropyLoss "int option"

text \<open>
  \<^verbatim>\<open>define_loss(opt)\<close> reads only \<^verbatim>\<open>opt.dataset_mode\<close>.  The constructor argument is
  \<^verbatim>\<open>ignore_index\<close>.  With neither branch taken the local \<^verbatim>\<open>loss\<close> is unbound at
  \<^verbatim>\<open>return loss\<close>.
\<close>

definition define_loss :: "string \<Rightarrow> error + loss" where
  "define_loss dataset_mode =
     (if dataset_mode = ''classification'' then Inr (CrossEntropyLoss None)
      else if dataset_mode = ''segmentation'' then Inr (CrossEntropyLoss (Some (- 1)))
      else Inl (UnboundLocalError ''loss''))"

section \<open>Collaborating layers and the forward-pass effects\<close>

text \<open>
  The layers of \<^verbatim>\<open>models.layers\<close> and of the tensor library are not part of this file of
  the repository.  Constructing one is recorded as a descriptor (the class and its
  arguments); calling one is a parameter of the model, gathered in the record \<open>ops\<close>.
  A call may raise and may change state the caller cannot see (the pooling history kept in
  the mesh objects, random dropout): a forward computation is therefore a function from a
  world \<open>'w\<close> to an error or a result with the next world.  Tensors are values of an
  arbitrary type \<open>'t\<close>, the \<^verbatim>\<open>meshes\<close> argument a value of type \<open>'m\<close>.
\<close>

type_synonym ('w, 'a) run = "'w \<Rightarrow> error + ('a \<times> 'w)"

definition rret :: "'a \<Rightarrow> ('w, 'a) run" where
  "rret a = (\<lambda>w. Inr (a, w))"

definition rraise :: "error \<Rightarrow> ('w, 'a) run" where
  "rraise e = (\<lambda>w. Inl e)"

definition rbind :: "('w, 'a) run \<Rightarrow> ('a \<Rightarrow> ('w, 'b) run) \<Rightarrow> ('w, 'b) run" where
  "rbind m f = (\<lambda>w. case m w of Inl e \<Rightarrow> Inl e | Inr (a, w') \<Rightarrow> f a w')"

definition rlift :: "error + 'a \<Rightarrow> ('w, 'a) run" where
  "rlift r = (case r of Inl e \<Rightarrow> rraise e | Inr a \<Rightarrow> rret a)"

text \<open>\<^verbatim>\<open>MeshConv(in_channels, out_channels)\<close>.\<close>

datatype MeshConv = MeshConv int int

text \<open>
  \<^verbatim>\<open>int(a / b)\<close> of two integers.  \<^verbatim>\<open>/\<close> is floating-point division: a zero divisor
  raises \<^verbatim>\<open>ZeroDivisionError\<close>, and a quotient whose correctly rounded value reaches
  \<open>2 ^ 1024\<close>, that is one of magnitude at least \<open>2 ^ 1024 - 2 ^ 970\<close>, raises
  \<^verbatim>\<open>OverflowError\<close>.  The value itself is a rounded float and is kept as written.
\<close>

datatype quotient = IntTrueDiv int int

definition float_overflow_bound :: int where
  "float_overflow_bound = 2 ^ 1024 - 2 ^ 970"

definition int_truediv :: "int \<Rightarrow> int \<Rightarrow> error + quotient" where
  "int_truediv a b =
     (if b = 0 then Inl ZeroDivisionError
      else if float_overflow_bound * \<bar>b\<bar> \<le> \<bar>a\<bar> then Inl OverflowError
      else Inr (IntTrueDiv a b))"

text \<open>The keyword arguments a \<^verbatim>\<open>MeshAttention\<close> layer is constructed with.\<close>

record MeshAttention =
  ma_n_head :: int
  ma_d_model :: int
  ma_d_k :: quotient
  ma_d_v :: quotient
  ma_attn_max_dist :: "int option"
  ma_dropout :: "real option"
  ma_use_values_as_is :: py_bool
  ma_use_positional_encoding :: py_bool
  ma_max_relative_position :: "int option"

text \<open>
  The modules and tensor functions of one tensor argument that take no mesh.
  \<open>Contiguous_view\<close> is \<^verbatim>\<open>fe.contiguous().view(fe.size()[0], -1)\<close>.
\<close>

datatype nn_op =
    InstanceNorm2d int
  | InstanceNorm1d int
  | Linear int int
  | MaxPool1d int
  | AvgPool1d int
  | F_relu
  | Squeeze nat
  | Unsqueeze nat
  | Detach
  | Contiguous_view

text \<open>
  What calling each collaborator does.  \<open>MeshPool_call p x meshes prio\<close> is
  \<^verbatim>\<open>pool(x, meshes, prio)\<close> for \<^verbatim>\<open>pool = MeshPool(p)\<close>, the priorities \<open>None\<close> when the
  source passes none; \<open>MeshAttention_call a x meshes dist\<close> returns the four results
  \<^verbatim>\<open>(x, attn, attn_per_edge, dist_matrices)\<close>; \<open>torch_cat a b\<close> is \<^verbatim>\<open>torch.cat((a, b), 1)\<close> on
  two tensors; \<open>tensor_add a b\<close> is \<^verbatim>\<open>a + b\<close>.
\<close>

record ('t, 'm, 'w) ops =
  nn_call :: "nn_op \<Rightarrow> 't \<Rightarrow> ('w, 't) run"
  tensor_add :: "'t \<Rightarrow> 't \<Rightarrow> ('w, 't) run"
  torch_cat :: "'t \<Rightarrow> 't \<Rightarrow> ('w, 't) run"
  MeshConv_call :: "MeshConv \<Rightarrow> 't \<Rightarrow> 'm \<Rightarrow> ('w, 't) run"
  MeshPool_call :: "int \<Rightarrow> 't \<Rightarrow> 'm \<Rightarrow> 't option \<Rightarrow> ('w, 't) run"
  MeshUnpool_call :: "int \<Rightarrow> 't \<Rightarrow> 'm \<Rightarrow> ('w, 't) run"
  MeshAttention_call :: "MeshAttention \<Rightarrow> 't \<Rightarrow> 'm \<Rightarrow> 't option \<Rightarrow> ('w, 't \<times> 't \<times> 't \<times> 't) run"

section \<open>DownConv\<close>

text \<open>
  The attributes of a \<^verbatim>\<open>DownConv\<close>: \<^verbatim>\<open>bn\<close>, \<^verbatim>\<open>pool\<close> (\<open>None\<close>, or the target of the
  \<^verbatim>\<open>MeshPool\<close>), \<^verbatim>\<open>conv1\<close>, \<^verbatim>\<open>conv2\<close>.
\<close>

record DownConv =
  dc_bn :: "nn_op list"
  dc_pool :: "int option"
  dc_conv1 :: MeshConv
  dc_conv2 :: "MeshConv list"

text \<open>
  \<^verbatim>\<open>DownConv.__init__(in_channels, out_channels, blocks, pool)\<close>.  \<^verbatim>\<open>range(blocks)\<close> is empty
  for a negative \<^verbatim>\<open>blocks\<close>; \<^verbatim>\<open>if pool:\<close> tests the integer against zero.
\<close>

definition DownConv_init :: "int \<Rightarrow> int \<Rightarrow> int \<Rightarrow> int \<Rightarrow> DownConv" where
  "DownConv_init in_channels out_channels blocks pool =
     \<lparr> dc_bn = replicate (nat (blocks + 1)) (InstanceNorm2d out_channels),
       dc_pool = (if pool \<noteq> 0 then Some pool else None),
       dc_conv1 = MeshConv in_channels out_channels,
       dc_conv2 = replicate (nat blocks) (MeshConv out_channels out_channels) \<rparr>"

text \<open>
  The loop \<^verbatim>\<open>for idx, conv in enumerate(self.conv2)\<close> of \<^verbatim>\<open>DownConv.forward\<close>; the
  argument \<open>x1\<close> is the loop variable \<^verbatim>\<open>x1\<close>, which equals \<^verbatim>\<open>x2\<close> on entry and after
  every iteration, and the result is \<^verbatim>\<open>x2\<close> on exit.
\<close>

fun DownConv_blocks ::
  "('t, 'm, 'w) ops \<Rightarrow> nn_op list \<Rightarrow> 'm \<Rightarrow> (nat \<times> MeshConv) list \<Rightarrow> 't \<Rightarrow> ('w, 't) run" where
  "DownConv_blocks ops bn meshes [] x1 = rret x1"
| "DownConv_blocks ops bn meshes ((idx, conv) # rest) x1 =
     rbind (MeshConv_call ops conv x1 meshes) (\<lambda>x2.
     rbind (if bn \<noteq> [] then rbind (rlift (py_index bn (int idx + 1))) (\<lambda>norm. nn_call ops norm x2)
            else rret x2) (\<lambda>x2.
     rbind (tensor_add ops x2 x1) (\<lambda>x2.
     rbind (nn_call ops F_relu x2) (\<lambda>x2.
     DownConv_blocks ops bn meshes rest x2))))"

text \<open>
  \<^verbatim>\<open>DownConv.forward\<close> up to and including \<^verbatim>\<open>x2 = x2.squeeze(3)\<close>: the features the
  pooling decision is then taken on.
\<close>

definition DownConv_features ::
  "('t, 'm, 'w) ops \<Rightarrow> 'z DownConv_scheme \<Rightarrow> 't \<times> 'm \<Rightarrow> ('w, 't) run" where
  "DownConv_features ops self x =
     (case x of (fe, meshes) \<Rightarrow>
        rbind (MeshConv_call ops (dc_conv1 self) fe meshes) (\<lambda>x1.
        rbind (if dc_bn self \<noteq> [] then rbind (rlift (py_index (dc_bn self) 0)) (\<lambda>norm. nn_call ops norm x1)
               else rret x1) (\<lambda>x1.
        rbind (nn_call ops F_relu x1) (\<lambda>x1.
        rbind (DownConv_blocks ops (dc_bn self) meshes (List.enumerate 0 (dc_conv2 self)) x1) (\<lambda>x2.
        nn_call ops (Squeeze 3) x2)))))"

text \<open>\<^verbatim>\<open>DownConv.forward\<close>: returns \<^verbatim>\<open>(x2, before_pool)\<close>.\<close>

definition DownConv_forward ::
  "('t, 'm, 'w) ops \<Rightarrow> 'z DownConv_scheme \<Rightarrow> 't \<times> 'm \<Rightarrow> ('w, 't \<times> 't option) run" where
  "DownConv_forward ops self x =
     rbind (DownConv_features ops self x) (\<lambda>x2.
       case dc_pool self of
         None \<Rightarrow> rret (x2, None)
       | Some p \<Rightarrow> rbind (MeshPool_call ops p x2 (snd x) None) (\<lambda>pooled. rret (pooled, Some x2)))"

section \<open>DownConvWithAttention\<close>

text \<open>
  The subclass adds \<^verbatim>\<open>real_pool\<close>, \<^verbatim>\<open>attention\<close>, \<^verbatim>\<open>prioritize_with_attention\<close> and
  \<^verbatim>\<open>double_attention\<close>.
\<close>

record DownConvWithAttention = DownConv +
  dca_real_pool :: "int option"
  dca_attention :: MeshAttention
  dca_prioritize_with_attention :: py_bool
  dca_double_attention :: py_bool

text \<open>
  \<^verbatim>\<open>DownConvWithAttention.__init__\<close>: the superclass constructor, the assertion, the move of
  \<^verbatim>\<open>pool\<close> to \<^verbatim>\<open>real_pool\<close>, then the attention layer (whose \<^verbatim>\<open>d_k\<close> divides by
  \<^verbatim>\<open>attn_n_heads\<close>).
\<close>

definition DownConvWithAttention_init ::
  "int \<Rightarrow> int \<Rightarrow> int \<Rightarrow> int \<Rightarrow> int \<Rightarrow> int option \<Rightarrow> real option \<Rightarrow> py_bool \<Rightarrow> py_bool \<Rightarrow>
   py_bool \<Rightarrow> py_bool \<Rightarrow> int option \<Rightarrow> error + DownConvWithAttention" where
  "DownConvWithAttention_init in_channels out_channels blocks pool attn_n_heads attn_max_dist
      attn_dropout prioritize_with_attention attn_use_values_as_is double_attention
      attn_use_positional_encoding attn_max_relative_position =
     (let super = DownConv_init in_channels out_channels blocks pool in
      if truthy double_attention \<and> \<not> truthy attn_use_values_as_is then
        Inl (AssertionError (''must have attn_use_values_as_is=True if double_attention=True, '' @
                             ''since the attention layer works on its own outputs''))
      else
        ebind (int_truediv out_channels attn_n_heads) (\<lambda>d_k.
        ebind (int_truediv out_channels attn_n_heads) (\<lambda>d_v.
        Inr \<lparr> dc_bn = dc_bn super,
              dc_pool = None,
              dc_conv1 = dc_conv1 super,
              dc_conv2 = dc_conv2 super,
              dca_real_pool = dc_pool super,
              dca_attention =
                \<lparr> ma_n_head = attn_n_heads, ma_d_model = out_channels, ma_d_k = d_k, ma_d_v = d_v,
                  ma_attn_max_dist = attn_max_dist, ma_dropout = attn_dropout,
                  ma_use_values_as_is = attn_use_values_as_is,
                  ma_use_positional_encoding = attn_use_positional_encoding,
                  ma_max_relative_position = attn_max_relative_position \<rparr>,
              dca_prioritize_with_attention = prioritize_with_attention,
              dca_double_attention = double_attention \<rparr>)))"

text \<open>
  \<^verbatim>\<open>DownConvWithAttention.forward\<close> up to the first attention call.  Its first line runs
  the inherited \<^verbatim>\<open>forward\<close> (on the object's own \<^verbatim>\<open>pool\<close> attribute) and drops the
  second result.
\<close>

definition DownConvWithAttention_attend ::
  "('t, 'm, 'w) ops \<Rightarrow> DownConvWithAttention \<Rightarrow> 't \<times> 'm \<Rightarrow> ('w, 't \<times> 't \<times> 't \<times> 't) run" where
  "DownConvWithAttention_attend ops self x =
     rbind (DownConv_forward ops self x) (\<lambda>(x2, _).
     case x of (fe, meshes) \<Rightarrow> MeshAttention_call ops (dca_attention self) x2 meshes None)"

text \<open>\<^verbatim>\<open>DownConvWithAttention.forward\<close>: returns \<^verbatim>\<open>(x2, before_pool)\<close>.\<close>

definition DownConvWithAttention_forward ::
  "('t, 'm, 'w) ops \<Rightarrow> DownConvWithAttention \<Rightarrow> 't \<times> 'm \<Rightarrow> ('w, 't \<times> 't option) run" where
  "DownConvWithAttention_forward ops self x =
     rbind (DownConvWithAttention_attend ops self x) (\<lambda>(x2, attn, attn_per_edge, dist_matrices).
     case x of (fe, meshes) \<Rightarrow>
     case dca_real_pool self of
       None \<Rightarrow> rret (x2, None)
     | Some p \<Rightarrow>
         rbind (if truthy (dca_double_attention self) then
                  rbind (nn_call ops Detach x2) (\<lambda>detached.
                  rbind (MeshAttention_call ops (dca_attention self) detached meshes (Some dist_matrices))
                    (\<lambda>(_, _, attn_per_edge, _). rret attn_per_edge))
                else rret attn_per_edge) (\<lambda>attn_per_edge.
         let edge_priorities = (if truthy (dca_prioritize_with_attention self) then Some attn_per_edge else None)
         in rbind (MeshPool_call ops p x2 meshes edge_priorities) (\<lambda>pooled. rret (pooled, Some x2))))"

section \<open>UpConv\<close>

record UpConv =
  uc_residual :: bool
  uc_bn :: "nn_op list"
  uc_unroll :: "int option"
  uc_transfer_data :: bool
  uc_up_conv :: MeshConv
  uc_conv1 :: MeshConv
  uc_conv2 :: "MeshConv list"

text \<open>
  \<^verbatim>\<open>UpConv.__init__(in_channels, out_channels, blocks, unroll, residual, batch_norm,
  transfer_data)\<close>.  \<^verbatim>\<open>if unroll:\<close> tests the integer against zero (\<^verbatim>\<open>False\<close> is zero).
\<close>

definition UpConv_init :: "int \<Rightarrow> int \<Rightarrow> int \<Rightarrow> int \<Rightarrow> bool \<Rightarrow> bool \<Rightarrow> bool \<Rightarrow> UpConv" where
  "UpConv_init in_channels out_channels blocks unroll residual batch_norm transfer_data =
     \<lparr> uc_residual = residual,
       uc_bn = (if batch_norm then replicate (nat (blocks + 1)) (InstanceNorm2d out_channels) else []),
       uc_unroll = (if unroll \<noteq> 0 then Some unroll else None),
       uc_transfer_data = transfer_data,
       uc_up_conv = MeshConv in_channels out_channels,
       uc_conv1 = (if transfer_data then MeshConv (2 * out_channels) out_channels
                   else MeshConv out_channels out_channels),
       uc_conv2 = replicate (nat blocks) (MeshConv out_channels out_channels) \<rparr>"

text \<open>The loop over \<^verbatim>\<open>enumerate(self.conv2)\<close> of \<^verbatim>\<open>UpConv.forward\<close>.\<close>

fun UpConv_blocks ::
  "('t, 'm, 'w) ops \<Rightarrow> UpConv \<Rightarrow> 'm \<Rightarrow> (nat \<times> MeshConv) list \<Rightarrow> 't \<Rightarrow> ('w, 't) run" where
  "UpConv_blocks ops self meshes [] x1 = rret x1"
| "UpConv_blocks ops self meshes ((idx, conv) # rest) x1 =
     rbind (MeshConv_call ops conv x1 meshes) (\<lambda>x2.
     rbind (if uc_bn self \<noteq> [] then
              rbind (rlift (py_index (uc_bn self) (int idx + 1))) (\<lambda>norm. nn_call ops norm x2)
            else rret x2) (\<lambda>x2.
     rbind (if uc_residual self then tensor_add ops x2 x1 else rret x2) (\<lambda>x2.
     rbind (nn_call ops F_relu x2) (\<lambda>x2.
     UpConv_blocks ops self meshes rest x2))))"

text \<open>
  \<^verbatim>\<open>torch.cat((x1, from_down), 1)\<close>: the library refuses a tuple that holds \<^verbatim>\<open>None\<close>
  with a \<^verbatim>\<open>TypeError\<close>.
\<close>

definition cat_from_down :: "('t, 'm, 'w) ops \<Rightarrow> 't \<Rightarrow> 't option \<Rightarrow> ('w, 't) run" where
  "cat_from_down ops x1 from_down =
     (case from_down of None \<Rightarrow> rraise TypeError | Some d \<Rightarrow> torch_cat ops x1 d)"

text \<open>
  \<^verbatim>\<open>UpConv.forward\<close> up to the test of \<^verbatim>\<open>self.transfer_data\<close>: the up-convolution, its
  \<^verbatim>\<open>squeeze(3)\<close> and the unrolling.
\<close>

definition UpConv_up :: "('t, 'm, 'w) ops \<Rightarrow> UpConv \<Rightarrow> 't \<times> 'm \<Rightarrow> ('w, 't) run" where
  "UpConv_up ops self x =
     (case x of (from_up, meshes) \<Rightarrow>
        rbind (MeshConv_call ops (uc_up_conv self) from_up meshes) (\<lambda>x1.
        rbind (nn_call ops (Squeeze 3) x1) (\<lambda>x1.
        case uc_unroll self of None \<Rightarrow> rret x1
        | Some u \<Rightarrow> MeshUnpool_call ops u x1 meshes)))"

text \<open>\<^verbatim>\<open>UpConv.forward(x, from_down)\<close>.\<close>

definition UpConv_forward ::
  "('t, 'm, 'w) ops \<Rightarrow> UpConv \<Rightarrow> 't \<times> 'm \<Rightarrow> 't option \<Rightarrow> ('w, 't) run" where
  "UpConv_forward ops self x from_down =
     (case x of (from_up, meshes) \<Rightarrow>
        rbind (UpConv_up ops self x) (\<lambda>x1.
        rbind (if uc_transfer_data self then cat_from_down ops x1 from_down else rret x1) (\<lambda>x1.
        rbind (MeshConv_call ops (uc_conv1 self) x1 meshes) (\<lambda>x1.
        rbind (if uc_bn self \<noteq> [] then
                 rbind (rlift (py_index (uc_bn self) 0)) (\<lambda>norm. nn_call ops norm x1)
               else rret x1) (\<lambda>x1.
        rbind (nn_call ops F_relu x1) (\<lambda>x1.
        rbind (UpConv_blocks ops self meshes (List.enumerate 0 (uc_conv2 self)) x1) (\<lambda>x2.
        nn_call ops (Squeeze 3) x2)))))))"

section \<open>MeshEncoder\<close>

text \<open>An element of \<^verbatim>\<open>self.convs\<close>; calling it dispatches to its class's \<^verbatim>\<open>forward\<close>.\<close>

datatype down_stage = Plain DownConv | WithAttention DownConvWithAttention

definition down_stage_call ::
  "('t, 'm, 'w) ops \<Rightarrow> down_stage \<Rightarrow> 't \<times> 'm \<Rightarrow> ('w, 't \<times> 't option) run" where
  "down_stage_call ops conv x =
     (case conv of Plain dc \<Rightarrow> DownConv_forward ops dc x
      | WithAttention dca \<Rightarrow> DownConvWithAttention_forward ops dca x)"

text \<open>
  The features a stage holds when it decides whether to pool: the convolution block's for a
  \<^verbatim>\<open>DownConv\<close>, the first result of the attention call for a \<^verbatim>\<open>DownConvWithAttention\<close>.
\<close>

definition down_stage_features ::
  "('t, 'm, 'w) ops \<Rightarrow> down_stage \<Rightarrow> 't \<times> 'm \<Rightarrow> ('w, 't) run" where
  "down_stage_features ops conv x =
     (case conv of Plain dc \<Rightarrow> DownConv_features ops dc x
      | WithAttention dca \<Rightarrow>
          rbind (DownConvWithAttention_attend ops dca x) (\<lambda>(x2, attn, attn_per_edge, dist_matrices). rret x2))"

text \<open>Whether a stage owns a pooling layer (\<^verbatim>\<open>pool\<close>, respectively \<^verbatim>\<open>real_pool\<close>).\<close>

definition down_stage_pool :: "down_stage \<Rightarrow> int option" where
  "down_stage_pool conv = (case conv of Plain dc \<Rightarrow> dc_pool dc | WithAttention dca \<Rightarrow> dca_real_pool dca)"

record MeshEncoder =
  enc_fcs :: "nn_op list option"
  enc_fcs_bn :: "nn_op list"
  enc_convs :: "down_stage list"
  enc_global_pool :: "nn_op option"

text \<open>A loop that builds one object per index and stops at the first constructor that raises.\<close>

fun build_each :: "('a \<Rightarrow> error + 'b) \<Rightarrow> 'a list \<Rightarrow> error + 'b list" where
  "build_each mk [] = Inr []"
| "build_each mk (i # rest) = ebind (mk i) (\<lambda>c. ebind (build_each mk rest) (\<lambda>cs. Inr (c # cs)))"

text \<open>
  The body of \<^verbatim>\<open>for i in range(len(convs) - 1)\<close> in \<^verbatim>\<open>MeshEncoder.__init__\<close>; both
  \<^verbatim>\<open>convs[i]\<close> and \<^verbatim>\<open>convs[i + 1]\<close> lie inside the list for these \<open>i\<close>.
\<close>

definition MeshEncoder_conv ::
  "int list \<Rightarrow> int list \<Rightarrow> int \<Rightarrow> int option \<Rightarrow> int option \<Rightarrow> real option \<Rightarrow> py_bool \<Rightarrow> py_bool \<Rightarrow>
   py_bool \<Rightarrow> py_bool \<Rightarrow> int option \<Rightarrow> nat \<Rightarrow> error + down_stage" where
  "MeshEncoder_conv pools convs blocks attn_n_heads attn_max_dist attn_dropout
      prioritize_with_attention attn_use_values_as_is double_attention
      attn_use_positional_encoding attn_max_relative_position i =
     (let pool = (if i + 1 < length pools then pools ! (i + 1) else 0) in
      case attn_n_heads of
        None \<Rightarrow> Inr (Plain (DownConv_init (convs ! i) (convs ! (i + 1)) blocks pool))
      | Some n_heads \<Rightarrow>
          ebind (DownConvWithAttention_init (convs ! i) (convs ! (i + 1)) blocks pool n_heads
                   attn_max_dist attn_dropout prioritize_with_attention attn_use_values_as_is
                   double_attention attn_use_positional_encoding attn_max_relative_position)
            (\<lambda>dca. Inr (WithAttention dca)))"

text \<open>\<^verbatim>\<open>for length in fcs: self.fcs.append(nn.Linear(last_length, length)); last_length = length\<close>.\<close>

fun fc_layers :: "int \<Rightarrow> int list \<Rightarrow> nn_op list" where
  "fc_layers last_length [] = []"
| "fc_layers last_length (l # rest) = Linear last_length l # fc_layers l rest"

text \<open>
  The \<^verbatim>\<open>if fcs is not None\<close> part of the constructor: the global pool (if any), the input
  length of the head, and the layer lists \<^verbatim>\<open>fcs\<close> and \<^verbatim>\<open>fcs_bn\<close>.
\<close>

definition MeshEncoder_head ::
  "int list \<Rightarrow> int list \<Rightarrow> int list \<Rightarrow> string option \<Rightarrow> error + (nn_op option \<times> nn_op list \<times> nn_op list)" where
  "MeshEncoder_head pools convs fcs global_pool =
     ebind (py_index convs (- 1)) (\<lambda>last_length.
     ebind (case global_pool of
              Some gp \<Rightarrow>
                if gp = ''max'' then ebind (py_index pools (- 1)) (\<lambda>p. Inr (Some (MaxPool1d p), last_length))
                else if gp = ''avg'' then ebind (py_index pools (- 1)) (\<lambda>p. Inr (Some (AvgPool1d p), last_length))
                else Inl (AssertionError (''global_pool '' @ gp @ '' is not defined''))
            | None \<Rightarrow> ebind (py_index pools (- 1)) (\<lambda>p. Inr (None, last_length * p)))
       (\<lambda>(gpool, last_length).
     ebind (py_index fcs 0) (\<lambda>fcs0.
     let fcs = (if fcs0 = last_length then drop 1 fcs else fcs) in
     Inr (gpool, fc_layers last_length fcs, map InstanceNorm1d fcs))))"

text \<open>
  \<^verbatim>\<open>MeshEncoder.__init__\<close>.  (\<^verbatim>\<open>reset_params\<close> touches weights only.)
\<close>

definition MeshEncoder_init ::
  "int list \<Rightarrow> int list \<Rightarrow> int list option \<Rightarrow> int \<Rightarrow> string option \<Rightarrow> int option \<Rightarrow> int option \<Rightarrow>
   real option \<Rightarrow> py_bool \<Rightarrow> py_bool \<Rightarrow> py_bool \<Rightarrow> py_bool \<Rightarrow> int option \<Rightarrow> error + MeshEncoder" where
  "MeshEncoder_init pools convs fcs blocks global_pool attn_n_heads attn_max_dist attn_dropout
      prioritize_with_attention attn_use_values_as_is double_attention
      attn_use_positional_encoding attn_max_relative_position =
     (if attn_n_heads \<noteq> None \<and> \<not> (attn_dropout \<noteq> None \<and> prioritize_with_attention \<noteq> None) then
        Inl (AssertionError (''Must provide attn_n_heads, attn_dropout and prioritize_with_attention'' @
                             ''when using attention for encoder''))
      else
        ebind (build_each
                 (MeshEncoder_conv pools convs blocks attn_n_heads attn_max_dist attn_dropout
                    prioritize_with_attention attn_use_values_as_is double_attention
                    attn_use_positional_encoding attn_max_relative_position)
                 [0 ..< length convs - 1]) (\<lambda>stages.
        case fcs of
          None \<Rightarrow> Inr \<lparr> enc_fcs = None, enc_fcs_bn = [], enc_convs = stages, enc_global_pool = None \<rparr>
        | Some fcs \<Rightarrow>
            ebind (MeshEncoder_head pools convs fcs global_pool) (\<lambda>(gpool, linears, norms).
            Inr \<lparr> enc_fcs = Some linears, enc_fcs_bn = norms, enc_convs = stages,
                  enc_global_pool = gpool \<rparr>)))"

text \<open>The loop \<^verbatim>\<open>for conv in self.convs\<close> of \<^verbatim>\<open>MeshEncoder.forward\<close>.\<close>

fun MeshEncoder_convs_loop ::
  "('t, 'm, 'w) ops \<Rightarrow> 'm \<Rightarrow> down_stage list \<Rightarrow> 't \<Rightarrow> 't option list \<Rightarrow> ('w, 't \<times> 't option list) run" where
  "MeshEncoder_convs_loop ops meshes [] fe encoder_outs = rret (fe, encoder_outs)"
| "MeshEncoder_convs_loop ops meshes (conv # rest) fe encoder_outs =
     rbind (down_stage_call ops conv (fe, meshes)) (\<lambda>(fe, before_pool).
     MeshEncoder_convs_loop ops meshes rest fe (encoder_outs @ [before_pool]))"

text \<open>The loop \<^verbatim>\<open>for i in range(len(self.fcs))\<close> of \<^verbatim>\<open>MeshEncoder.forward\<close>.\<close>

fun MeshEncoder_fcs_loop ::
  "('t, 'm, 'w) ops \<Rightarrow> nn_op list \<Rightarrow> nn_op list \<Rightarrow> nat list \<Rightarrow> 't \<Rightarrow> ('w, 't) run" where
  "MeshEncoder_fcs_loop ops fcs fcs_bn [] fe = rret fe"
| "MeshEncoder_fcs_loop ops fcs fcs_bn (i # rest) fe =
     rbind (rlift (py_index fcs (int i))) (\<lambda>fc.
     rbind (nn_call ops fc fe) (\<lambda>fe.
     rbind (if fcs_bn \<noteq> [] then
              rbind (nn_call ops (Unsqueeze 1) fe) (\<lambda>x.
              rbind (rlift (py_index fcs_bn (int i))) (\<lambda>norm.
              rbind (nn_call ops norm x) (\<lambda>y.
              nn_call ops (Squeeze 1) y)))
            else rret fe) (\<lambda>fe.
     rbind (if int i < int (length fcs) - 1 then nn_call ops F_relu fe else rret fe) (\<lambda>fe.
     MeshEncoder_fcs_loop ops fcs fcs_bn rest fe))))"

text \<open>\<^verbatim>\<open>MeshEncoder.forward\<close>: returns \<^verbatim>\<open>(fe, encoder_outs)\<close>.\<close>

definition MeshEncoder_forward ::
  "('t, 'm, 'w) ops \<Rightarrow> MeshEncoder \<Rightarrow> 't \<times> 'm \<Rightarrow> ('w, 't \<times> 't option list) run" where
  "MeshEncoder_forward ops self x =
     (case x of (fe, meshes) \<Rightarrow>
        rbind (MeshEncoder_convs_loop ops meshes (enc_convs self) fe []) (\<lambda>(fe, encoder_outs).
        case enc_fcs self of
          None \<Rightarrow> rret (fe, encoder_outs)
        | Some fcs \<Rightarrow>
            rbind (case enc_global_pool self of None \<Rightarrow> rret fe
                   | Some gp \<Rightarrow> nn_call ops gp fe) (\<lambda>fe.
            rbind (nn_call ops Contiguous_view fe) (\<lambda>fe.
            rbind (MeshEncoder_fcs_loop ops fcs (enc_fcs_bn self) [0 ..< length fcs] fe) (\<lambda>fe.
            rret (fe, encoder_outs))))))"

section \<open>MeshDecoder\<close>

record MeshDecoder =
  dec_up_convs :: "UpConv list"
  dec_final_conv :: UpConv

text \<open>
  \<^verbatim>\<open>MeshDecoder.__init__(unrolls, convs, blocks, batch_norm, transfer_data)\<close>.  The loop
  indices keep \<^verbatim>\<open>convs[i]\<close> and \<^verbatim>\<open>convs[i + 1]\<close> inside the list; \<^verbatim>\<open>convs[-2]\<close> and
  \<^verbatim>\<open>convs[-1]\<close> may fall outside.  \<^verbatim>\<open>residual\<close> keeps its default \<^verbatim>\<open>True\<close>; the final
  stage is built with \<^verbatim>\<open>unroll=False\<close>, that is zero.
\<close>

definition MeshDecoder_init :: "int list \<Rightarrow> int list \<Rightarrow> int \<Rightarrow> bool \<Rightarrow> bool \<Rightarrow> error + MeshDecoder" where
  "MeshDecoder_init unrolls convs blocks batch_norm transfer_data =
     (let up_convs =
            map (\<lambda>i. let unroll = (if i < length unrolls then unrolls ! i else 0)
                     in UpConv_init (convs ! i) (convs ! (i + 1)) blocks unroll True batch_norm transfer_data)
              [0 ..< length convs - 2]
      in ebind (py_index convs (- 2)) (\<lambda>c_in.
         ebind (py_index convs (- 1)) (\<lambda>c_out.
         Inr \<lparr> dec_up_convs = up_convs,
               dec_final_conv = UpConv_init c_in c_out blocks 0 True batch_norm False \<rparr>)))"

text \<open>The loop \<^verbatim>\<open>for i, up_conv in enumerate(self.up_convs)\<close> of \<^verbatim>\<open>MeshDecoder.forward\<close>.\<close>

fun MeshDecoder_up_loop ::
  "('t, 'm, 'w) ops \<Rightarrow> 'm \<Rightarrow> 't option list option \<Rightarrow> (nat \<times> UpConv) list \<Rightarrow> 't \<Rightarrow> ('w, 't) run" where
  "MeshDecoder_up_loop ops meshes encoder_outs [] fe = rret fe"
| "MeshDecoder_up_loop ops meshes encoder_outs ((i, up_conv) # rest) fe =
     rbind (case encoder_outs of None \<Rightarrow> rret None
            | Some outs \<Rightarrow> rlift (py_index outs (- (int i + 2)))) (\<lambda>before_pool.
     rbind (UpConv_forward ops up_conv (fe, meshes) before_pool) (\<lambda>fe.
     MeshDecoder_up_loop ops meshes encoder_outs rest fe))"

text \<open>
  \<^verbatim>\<open>MeshDecoder.forward(x, encoder_outs)\<close>; \<^verbatim>\<open>self.final_conv((fe, meshes))\<close> passes the
  default \<^verbatim>\<open>from_down=None\<close>.
\<close>

definition MeshDecoder_forward ::
  "('t, 'm, 'w) ops \<Rightarrow> MeshDecoder \<Rightarrow> 't \<times> 'm \<Rightarrow> 't option list option \<Rightarrow> ('w, 't) run" where
  "MeshDecoder_forward ops self x encoder_outs =
     (case x of (fe, meshes) \<Rightarrow>
        rbind (MeshDecoder_up_loop ops meshes encoder_outs (List.enumerate 0 (dec_up_convs self)) fe) (\<lambda>fe.
        UpConv_forward ops (dec_final_conv self) (fe, meshes) None))"

section \<open>Reference readings of the two loops\<close>

text \<open>
  Up-conv stages applied in order, each paired with the skip input it is to receive.
\<close>

fun apply_up_stages ::
  "('t, 'm, 'w) ops \<Rightarrow> 'm \<Rightarrow> (UpConv \<times> 't option) list \<Rightarrow> 't \<Rightarrow> ('w, 't) run" where
  "apply_up_stages ops meshes [] fe = rret fe"
| "apply_up_stages ops meshes ((up_conv, skip) # rest) fe =
     rbind (UpConv_forward ops up_conv (fe, meshes) skip) (\<lambda>fe. apply_up_stages ops meshes rest fe)"

text \<open>
  The fully-connected head as the specification words it: the layers in order, with
  normalization and nonlinearity between all but the last, so that nothing follows the
  final layer.
\<close>

fun fc_head_spec :: "('t, 'm, 'w) ops \<Rightarrow> (nn_op \<times> nn_op) list \<Rightarrow> 't \<Rightarrow> ('w, 't) run" where
  "fc_head_spec ops [] fe = rret fe"
| "fc_head_spec ops ((fc, fc_bn) # rest) fe =
     rbind (nn_call ops fc fe) (\<lambda>fe.
     if rest = [] then rret fe
     else
       rbind (nn_call ops (Unsqueeze 1) fe) (\<lambda>x.
       rbind (nn_call ops fc_bn x) (\<lambda>y.
       rbind (nn_call ops (Squeeze 1) y) (\<lambda>fe.
       rbind (nn_call ops F_relu fe) (\<lambda>fe.
       fc_head_spec ops rest fe)))))"

text \<open>
  The head by recursion over the paired layers: every linear layer is followed by its
  normalization, and the nonlinearity follows all but the last.
\<close>

fun fc_head_layers :: "('t, 'm, 'w) ops \<Rightarrow> (nn_op \<times> nn_op) list \<Rightarrow> 't \<Rightarrow> ('w, 't) run" where
  "fc_head_layers ops [] fe = rret fe"
| "fc_head_layers ops ((fc, fc_bn) # rest) fe =
     rbind (nn_call ops fc fe) (\<lambda>fe.
     rbind (nn_call ops (Unsqueeze 1) fe) (\<lambda>x.
     rbind (nn_call ops fc_bn x) (\<lambda>y.
     rbind (nn_call ops (Squeeze 1) y) (\<lambda>fe.
     rbind (if rest = [] then rret fe else nn_call ops F_relu fe) (\<lambda>fe.
     fc_head_layers ops rest fe)))))"


section \<open>The networks\<close>

text \<open>
  The values \<^verbatim>\<open>get_norm_layer\<close> returns: three \<^verbatim>\<open>functools.partial\<close> objects (the group
  norm with its \<^verbatim>\<open>num_groups\<close>) and the class \<^verbatim>\<open>NoNorm\<close>.
\<close>

datatype norm_layer =
    BatchNorm2d_partial
  | InstanceNorm2d_partial
  | GroupNorm_partial int
  | NoNorm_class

datatype norm_kwargs = Fake bool | Num_channels int | Num_features int

text \<open>
  \<^verbatim>\<open>get_norm_args\<close>.  A partial object has no \<^verbatim>\<open>__name__\<close>; the names compared are those
  of the wrapped classes, \<^verbatim>\<open>GroupNorm\<close>, \<^verbatim>\<open>BatchNorm2d\<close> and \<^verbatim>\<open>InstanceNorm2d\<close>, and only
  the first equals one of the two strings tested.
\<close>

definition get_norm_args :: "norm_layer \<Rightarrow> int list \<Rightarrow> error + norm_kwargs list" where
  "get_norm_args norm_layer nfeats_list =
     (case norm_layer of
        NoNorm_class \<Rightarrow> Inr (map (\<lambda>f. Fake True) nfeats_list)
      | GroupNorm_partial g \<Rightarrow> Inr (map Num_channels nfeats_list)
      | BatchNorm2d_partial \<Rightarrow>
          Inl (NotImplementedError ''normalization layer [BatchNorm2d] is not found'')
      | InstanceNorm2d_partial \<Rightarrow>
          Inl (NotImplementedError ''normalization layer [InstanceNorm2d] is not found''))"

text \<open>
  \<^verbatim>\<open>norm_layer(**norm_args[i])\<close>.  \<^verbatim>\<open>nn.GroupNorm\<close> computes
  \<^verbatim>\<open>num_channels % num_groups\<close> (a zero \<^verbatim>\<open>num_groups\<close> raises \<^verbatim>\<open>ZeroDivisionError\<close>), raises
  \<^verbatim>\<open>ValueError\<close> when the remainder is not zero, and then allocates its weight of
  \<^verbatim>\<open>num_channels\<close> entries, which a negative size refuses with a \<^verbatim>\<open>RuntimeError\<close>.
  \<^verbatim>\<open>NoNorm\<close> only stores its flag.  The remaining rows are not reached through
  \<^verbatim>\<open>get_norm_args\<close>: a keyword the class does not know is a \<^verbatim>\<open>TypeError\<close>.
\<close>

datatype norm_module = Norm norm_layer norm_kwargs

definition norm_layer_call :: "norm_layer \<Rightarrow> norm_kwargs \<Rightarrow> error + norm_module" where
  "norm_layer_call norm_layer kwargs =
     (case (norm_layer, kwargs) of
        (NoNorm_class, Fake b) \<Rightarrow> Inr (Norm norm_layer kwargs)
      | (GroupNorm_partial g, Num_channels f) \<Rightarrow>
          if g = 0 then Inl ZeroDivisionError
          else if f mod g \<noteq> 0 then Inl (ValueError ''num_channels must be divisible by num_groups'')
          else if f < 0 then Inl (RuntimeError ''Trying to create tensor with negative dimension'')
          else Inr (Norm norm_layer kwargs)
      | (BatchNorm2d_partial, Num_features f) \<Rightarrow>
          if f < 0 then Inl (RuntimeError ''Trying to create tensor with negative dimension'')
          else Inr (Norm norm_layer kwargs)
      | (InstanceNorm2d_partial, Num_features f) \<Rightarrow> Inr (Norm norm_layer kwargs)
      | _ \<Rightarrow> Inl TypeError)"

text \<open>\<^verbatim>\<open>MResConv(in_channels, out_channels, skips)\<close>.\<close>

datatype MResConv = MResConv int int int

text \<open>
  \<^verbatim>\<open>MeshConvNet\<close>: the attributes \<^verbatim>\<open>conv{i}\<close>, \<^verbatim>\<open>norm{i}\<close>, \<^verbatim>\<open>pool{i}\<close> are the \<open>i\<close>-th
  entry of \<open>mcn_layers\<close> (the pool by the target of its \<^verbatim>\<open>MeshPool\<close>).  Each iteration of
  the constructor's loop builds the convolution, then the norm layer, then reads
  \<^verbatim>\<open>self.res[i + 1]\<close> for the pool.
\<close>

record MeshConvNet =
  mcn_k :: "int list"
  mcn_res :: "int list"
  mcn_layers :: "(MResConv \<times> norm_module \<times> int) list"
  mcn_gp :: nn_op
  mcn_fc1 :: nn_op
  mcn_fc2 :: nn_op

text \<open>
  One iteration of the constructor's loop: the convolution and the norm layer are built,
  then \<^verbatim>\<open>self.res[i + 1]\<close> is read.
\<close>

definition MeshConvNet_layer ::
  "norm_layer \<Rightarrow> int list \<Rightarrow> int list \<Rightarrow> int \<Rightarrow> norm_kwargs list \<Rightarrow> nat \<Rightarrow>
   error + (MResConv \<times> norm_module \<times> int)" where
  "MeshConvNet_layer norm_layer k res nresblocks norm_args i =
     ebind (py_index norm_args (int i)) (\<lambda>args.
     ebind (norm_layer_call norm_layer args) (\<lambda>norm_i.
     ebind (py_index res (int i + 1)) (\<lambda>r.
     Inr (MResConv (k ! i) (k ! (i + 1)) nresblocks, norm_i, r))))"

definition MeshConvNet_init ::
  "norm_layer \<Rightarrow> int \<Rightarrow> int list \<Rightarrow> int \<Rightarrow> int \<Rightarrow> int list \<Rightarrow> int \<Rightarrow> int \<Rightarrow> error + MeshConvNet" where
  "MeshConvNet_init norm_layer nf0 conv_res nclasses input_res pool_res fc_n nresblocks =
     (let k = nf0 # conv_res; res = input_res # pool_res in
      ebind (get_norm_args norm_layer (drop 1 k)) (\<lambda>norm_args.
      ebind (build_each (MeshConvNet_layer norm_layer k res nresblocks norm_args) [0 ..< length k - 1])
        (\<lambda>layers.
      ebind (py_index res (- 1)) (\<lambda>res_last.
      ebind (py_index k (- 1)) (\<lambda>k_last.
      Inr \<lparr> mcn_k = k, mcn_res = res, mcn_layers = layers, mcn_gp = AvgPool1d res_last,
            mcn_fc1 = Linear k_last fc_n, mcn_fc2 = Linear fc_n nclasses \<rparr>)))))"

text \<open>\<^verbatim>\<open>MeshAttentionNet\<close>: as above, with \<^verbatim>\<open>attention{i}\<close> between the norm and the pool.\<close>

record MeshAttentionNet =
  man_k :: "int list"
  man_res :: "int list"
  man_prioritize_with_attention :: py_bool
  man_double_attention :: py_bool
  man_use_values_as_is :: py_bool
  man_layers :: "(MResConv \<times> norm_module \<times> MeshAttention \<times> int) list"
  man_gp :: nn_op
  man_fc1 :: nn_op
  man_fc2 :: nn_op

text \<open>
  One iteration of its loop: convolution, norm layer, attention layer (whose \<^verbatim>\<open>d_k\<close> and
  \<^verbatim>\<open>d_v\<close> divide by \<^verbatim>\<open>attn_n_heads\<close>), then \<^verbatim>\<open>self.res[i + 1]\<close>.
\<close>

definition MeshAttentionNet_layer ::
  "norm_layer \<Rightarrow> int list \<Rightarrow> int list \<Rightarrow> int \<Rightarrow> int \<Rightarrow> int option \<Rightarrow> real option \<Rightarrow> py_bool \<Rightarrow>
   py_bool \<Rightarrow> int option \<Rightarrow> norm_kwargs list \<Rightarrow> nat \<Rightarrow>
   error + (MResConv \<times> norm_module \<times> MeshAttention \<times> int)" where
  "MeshAttentionNet_layer norm_layer k res nresblocks attn_n_heads attn_max_dist attn_dropout
      attn_use_values_as_is attn_use_positional_encoding attn_max_relative_position norm_args i =
     ebind (py_index norm_args (int i)) (\<lambda>args.
     ebind (norm_layer_call norm_layer args) (\<lambda>norm_i.
     ebind (int_truediv (k ! (i + 1)) attn_n_heads) (\<lambda>d_k.
     ebind (int_truediv (k ! (i + 1)) attn_n_heads) (\<lambda>d_v.
     ebind (py_index res (int i + 1)) (\<lambda>r.
     Inr (MResConv (k ! i) (k ! (i + 1)) nresblocks, norm_i,
          \<lparr> ma_n_head = attn_n_heads, ma_d_model = k ! (i + 1), ma_d_k = d_k,
            ma_d_v = d_v, ma_attn_max_dist = attn_max_dist,
            ma_dropout = attn_dropout,
            ma_use_values_as_is = attn_use_values_as_is,
            ma_use_positional_encoding = attn_use_positional_encoding,
            ma_max_relative_position = attn_max_relative_position \<rparr>,
          r))))))"

definition MeshAttentionNet_init ::
  "norm_layer \<Rightarrow> int \<Rightarrow> int list \<Rightarrow> int \<Rightarrow> int \<Rightarrow> int list \<Rightarrow> int \<Rightarrow> int \<Rightarrow> int \<Rightarrow> int option \<Rightarrow>
   real option \<Rightarrow> py_bool \<Rightarrow> py_bool \<Rightarrow> py_bool \<Rightarrow> py_bool \<Rightarrow> int option \<Rightarrow> error + MeshAttentionNet" where
  "MeshAttentionNet_init norm_layer nf0 conv_res nclasses input_res pool_res fc_n attn_n_heads
      nresblocks attn_max_dist attn_dropout prioritize_with_attention attn_use_values_as_is
      double_attention attn_use_positional_encoding attn_max_relative_position =
     (if truthy double_attention \<and> \<not> truthy attn_use_values_as_is then
        Inl (AssertionError (''must have attn_use_values_as_is=True if double_attention=True, '' @
                             ''since the attention layer works on its own outputs''))
      else
        let k = nf0 # conv_res; res = input_res # pool_res in
        ebind (get_norm_args norm_layer (drop 1 k)) (\<lambda>norm_args.
        ebind (build_each
                 (MeshAttentionNet_layer norm_layer k res nresblocks attn_n_heads attn_max_dist
                    attn_dropout attn_use_values_as_is attn_use_positional_encoding
                    attn_max_relative_position norm_args)
                 [0 ..< length k - 1]) (\<lambda>layers.
        ebind (py_index res (- 1)) (\<lambda>res_last.
        ebind (py_index k (- 1)) (\<lambda>k_last.
        Inr \<lparr> man_k = k, man_res = res,
              man_prioritize_with_attention = prioritize_with_attention,
              man_double_attention = double_attention,
              man_use_values_as_is = attn_use_values_as_is,
              man_layers = layers, man_gp = AvgPool1d res_last,
              man_fc1 = Linear k_last fc_n, man_fc2 = Linear fc_n nclasses \<rparr>)))))"

text \<open>
  \<^verbatim>\<open>MeshEncoderDecoder\<close> and \<^verbatim>\<open>MeshEncoderDecoderWithAttention\<close> hold the same attributes.
  \<^verbatim>\<open>pools[:-1]\<close> drops the last entry of a non-empty list and is empty for the empty one.
\<close>

record MeshEncoderDecoder =
  med_transfer_data :: bool
  med_encoder :: MeshEncoder
  med_decoder :: MeshDecoder


definition MeshEncoderDecoderWithAttention_init ::
  "int list \<Rightarrow> int list \<Rightarrow> int list \<Rightarrow> int \<Rightarrow> bool \<Rightarrow> int option \<Rightarrow> int option \<Rightarrow> real option \<Rightarrow>
   py_bool \<Rightarrow> py_bool \<Rightarrow> py_bool \<Rightarrow> py_bool \<Rightarrow> int option \<Rightarrow> error + MeshEncoderDecoder" where
  "MeshEncoderDecoderWithAttention_init pools down_convs up_convs blocks transfer_data attn_n_heads
      attn_max_dist attn_dropout prioritize_with_attention attn_use_values_as_is double_attention
      attn_use_positional_encoding attn_max_relative_position =
     ebind (MeshEncoder_init pools down_convs None blocks None attn_n_heads attn_max_dist attn_dropout
              prioritize_with_attention attn_use_values_as_is double_attention
              attn_use_positional_encoding attn_max_relative_position) (\<lambda>encoder.
     let unrolls = rev (butlast pools) in
     ebind (MeshDecoder_init unrolls up_convs blocks True transfer_data) (\<lambda>decoder.
     Inr \<lparr> med_transfer_data = transfer_data, med_encoder = encoder, med_decoder = decoder \<rparr>))"

section \<open>A symbolic instance of the collaborators\<close>

text \<open>
  For running the model on concrete inputs the collaborators are instantiated freely: a
  tensor is the expression that produced it, no call raises, and the world counts the
  calls made so far.  \<open>Attention k a x dist\<close> is the \<open>k\<close>-th result of an attention call.
\<close>

datatype tensor =
    Input nat
  | Call nn_op tensor
  | Plus tensor tensor
  | Cat tensor tensor
  | Conv MeshConv tensor
  | Pool int tensor "tensor option"
  | Unpool int tensor
  | Attention nat MeshAttention tensor "tensor option"

definition tick :: "'a \<Rightarrow> (nat, 'a) run" where
  "tick a = (\<lambda>w. Inr (a, Suc w))"

definition symbolic_ops :: "(tensor, unit, nat) ops" where
  "symbolic_ops =
     \<lparr> nn_call = (\<lambda>f x. tick (Call f x)),
       tensor_add = (\<lambda>a b. tick (Plus a b)),
       torch_cat = (\<lambda>a b. tick (Cat a b)),
       MeshConv_call = (\<lambda>c x meshes. tick (Conv c x)),
       MeshPool_call = (\<lambda>p x meshes prio. tick (Pool p x prio)),
       MeshUnpool_call = (\<lambda>u x meshes. tick (Unpool u x)),
       MeshAttention_call = (\<lambda>a x meshes dist.
          tick (Attention 0 a x dist, Attention 1 a x dist, Attention 2 a x dist, Attention 3 a x dist)) \<rparr>"

section \<open>Theorems\<close>

text \<open>
  C8 (as the code behaves).  The claim asks for a configuration error with an identifying
  message on an unknown \<^verbatim>\<open>dataset_mode\<close>.  At the selector \<^verbatim>\<open>'regression'\<close> the function
  instead stops at \<^verbatim>\<open>return loss\<close> with the unbound-local error.
\<close>

theorem define_loss_unknown_mode:
  "define_loss ''regression'' = Inl (UnboundLocalError ''loss'')"
  by (simp add: define_loss_def)

subsection \<open>Sequencing\<close>

lemma float_overflow_bound_large: "2 ^ 53 \<le> float_overflow_bound"
proof -
  have "float_overflow_bound = 2 ^ 970 * (2 ^ 54 - 1)"
    unfolding float_overflow_bound_def by (simp add: algebra_simps flip: power_add)
  moreover have "(1::int) \<le> 2 ^ 970" by simp
  moreover have "(2::int) ^ 53 \<le> 2 ^ 54 - 1" by simp
  ultimately show ?thesis
    using mult_mono [of 1 "2 ^ 970" "2 ^ 53" "2 ^ 54 - 1 :: int"] by simp
qed

lemma int_truediv_small:
  "b \<noteq> 0 \<Longrightarrow> \<bar>a\<bar> < 2 ^ 53 \<Longrightarrow> int_truediv a b = Inr (IntTrueDiv a b)"
proof -
  assume b: "b \<noteq> 0" and a: "\<bar>a\<bar> < 2 ^ 53"
  from b have "1 \<le> \<bar>b\<bar>" by simp
  with float_overflow_bound_large have "2 ^ 53 * 1 \<le> float_overflow_bound * \<bar>b\<bar>"
    by (intro mult_mono) simp_all
  with a b show ?thesis
    by (simp add: int_truediv_def)
qed

lemma rbind_rret: "rbind (rret a) f = f a"
  by (simp add: rbind_def rret_def)

lemma rbind_Inr_iff:
  "rbind m f w = Inr r \<longleftrightarrow> (\<exists>a w1. m w = Inr (a, w1) \<and> f a w1 = Inr r)"
  by (auto simp: rbind_def split: sum.splits)

lemma rret_Inr_iff: "rret a w = Inr r \<longleftrightarrow> r = (a, w)"
  by (auto simp: rret_def)

lemma ebind_Inr_iff: "ebind m f = Inr r \<longleftrightarrow> (\<exists>a. m = Inr a \<and> f a = Inr r)"
  by (auto simp: ebind_def split: sum.splits)

subsection \<open>Stages without pooling\<close>

lemma DownConv_init_pool:
  "dc_pool (DownConv_init cin cout blocks pool) = (if pool \<noteq> 0 then Some pool else None)"
  by (simp add: DownConv_init_def)

lemma DownConv_blocks_pool_frame:
  "DownConv_blocks (ops\<lparr>MeshPool_call := q\<rparr>) bn meshes convs = DownConv_blocks ops bn meshes convs"
proof (induction convs)
  case Nil
  show ?case by (rule ext) simp
next
  case (Cons c convs)
  obtain idx conv where c: "c = (idx, conv)" by (cases c)
  show ?case unfolding c by (rule ext) (simp add: Cons.IH cong: if_cong)
qed

lemma DownConv_features_pool_frame:
  "DownConv_features (ops\<lparr>MeshPool_call := q\<rparr>) self x = DownConv_features ops self x"
  by (simp add: DownConv_features_def DownConv_blocks_pool_frame split: prod.splits cong: if_cong)

lemma DownConv_forward_no_pool:
  "dc_pool self = None \<Longrightarrow>
   DownConv_forward ops self x = rbind (DownConv_features ops self x) (\<lambda>x2. rret (x2, None))"
  by (simp add: DownConv_forward_def)

lemma DownConvWithAttention_init_pools:
  assumes "DownConvWithAttention_init cin cout blocks pool n_heads max_dist dropout prio as_is dbl pos rel = Inr self"
  shows "dc_pool self = None"
    and "dca_real_pool self = (if pool \<noteq> 0 then Some pool else None)"
  using assms
  by (auto simp: DownConvWithAttention_init_def DownConv_init_pool ebind_def Let_def
           split: if_splits sum.splits)

text \<open>
  C7.  A \<^verbatim>\<open>DownConv\<close> built with \<^verbatim>\<open>pool=0\<close> returns exactly the features of its convolution
  block together with a \<^verbatim>\<open>None\<close> snapshot, and a \<^verbatim>\<open>DownConvWithAttention\<close> built with
  \<^verbatim>\<open>pool=0\<close> returns exactly the first result of its attention call on those features,
  again with a \<^verbatim>\<open>None\<close> snapshot.  In both cases the outcome is the same whatever the
  pooling collaborator would do: no pooling step takes part.
\<close>

theorem no_pool_forward:
  "(DownConv_forward ops (DownConv_init cin cout blocks 0) x w = Inr ((y, before_pool), w1)
      \<longleftrightarrow> before_pool = None \<and> DownConv_features ops (DownConv_init cin cout blocks 0) x w = Inr (y, w1))
   \<and> DownConv_forward (ops\<lparr>MeshPool_call := q\<rparr>) (DownConv_init cin cout blocks 0) x
       = DownConv_forward ops (DownConv_init cin cout blocks 0) x
   \<and> (DownConvWithAttention_init cin cout blocks 0 n_heads max_dist dropout prio as_is dbl pos rel = Inr self
      \<longrightarrow> (DownConvWithAttention_forward ops self x w = Inr ((y, before_pool), w1)
            \<longleftrightarrow> before_pool = None \<and>
                (\<exists>x2 w2 attn attn_per_edge dist_matrices.
                   DownConv_features ops self x w = Inr (x2, w2) \<and>
                   MeshAttention_call ops (dca_attention self) x2 (snd x) None w2
                     = Inr ((y, attn, attn_per_edge, dist_matrices), w1)))
          \<and> DownConvWithAttention_forward (ops\<lparr>MeshPool_call := q\<rparr>) self x
              = DownConvWithAttention_forward ops self x)"
proof (intro conjI impI)
  show "DownConv_forward ops (DownConv_init cin cout blocks 0) x w = Inr ((y, before_pool), w1)
      \<longleftrightarrow> before_pool = None \<and> DownConv_features ops (DownConv_init cin cout blocks 0) x w = Inr (y, w1)"
    by (auto simp: DownConv_forward_def DownConv_init_pool rbind_Inr_iff rret_Inr_iff)
  show "DownConv_forward (ops\<lparr>MeshPool_call := q\<rparr>) (DownConv_init cin cout blocks 0) x
       = DownConv_forward ops (DownConv_init cin cout blocks 0) x"
    by (simp add: DownConv_forward_def DownConv_init_pool DownConv_features_pool_frame)
next
  assume init: "DownConvWithAttention_init cin cout blocks 0 n_heads max_dist dropout prio as_is dbl pos rel = Inr self"
  have sel: "dc_pool self = None" "dca_real_pool self = None"
    using DownConvWithAttention_init_pools [OF init] by simp_all
  note fwd = DownConv_forward_no_pool [OF sel(1)]
  show "DownConvWithAttention_forward ops self x w = Inr ((y, before_pool), w1)
            \<longleftrightarrow> before_pool = None \<and>
                (\<exists>x2 w2 attn attn_per_edge dist_matrices.
                   DownConv_features ops self x w = Inr (x2, w2) \<and>
                   MeshAttention_call ops (dca_attention self) x2 (snd x) None w2
                     = Inr ((y, attn, attn_per_edge, dist_matrices), w1))"
    by (cases x)
       (auto simp: DownConvWithAttention_forward_def DownConvWithAttention_attend_def fwd sel
                   rbind_Inr_iff rret_Inr_iff)
  show "DownConvWithAttention_forward (ops\<lparr>MeshPool_call := q\<rparr>) self x
              = DownConvWithAttention_forward ops self x"
    by (cases x)
       (simp add: DownConvWithAttention_forward_def DownConvWithAttention_attend_def fwd sel
                  DownConv_features_pool_frame)
qed

theorem no_pool_forward_witness:
  "DownConv_forward symbolic_ops (DownConv_init 3 8 0 0) (Input 0, ()) 0
     = Inr ((Call (Squeeze 3) (Call F_relu (Call (InstanceNorm2d 8) (Conv (MeshConv 3 8) (Input 0)))),
             None), 4)
   \<and> (\<exists>self. DownConvWithAttention_init 3 8 0 0 4 None None (Some True) (Some True) (Some True) None None
                = Inr self
        \<and> DownConvWithAttention_forward symbolic_ops self (Input 0, ()) 0
            = Inr ((Attention 0 (dca_attention self)
                      (Call (Squeeze 3) (Call F_relu (Call (InstanceNorm2d 8) (Conv (MeshConv 3 8) (Input 0)))))
                      None, None), 5))"
proof -
  let ?x = "(Input 0, ())"
  let ?t = "Call (Squeeze 3) (Call F_relu (Call (InstanceNorm2d 8) (Conv (MeshConv 3 8) (Input 0))))"
  have feat: "DownConv_features symbolic_ops (DownConv_init 3 8 0 0) ?x 0 = Inr (?t, 4)"
    by code_simp
  have plain: "DownConv_forward symbolic_ops (DownConv_init 3 8 0 0) ?x 0 = Inr ((?t, None), 4)"
    using no_pool_forward [where ops = symbolic_ops and cin = 3 and cout = 8 and blocks = 0
        and x = ?x and w = 0 and y = ?t and before_pool = None and ?w1.0 = 4] feat
    by simp
  obtain self where init:
    "DownConvWithAttention_init 3 8 0 0 4 None None (Some True) (Some True) (Some True) None None = Inr self"
    by (simp add: DownConvWithAttention_init_def truthy_def int_truediv_small ebind_def Let_def)
  have feat': "DownConv_features symbolic_ops self ?x 0 = Inr (?t, 4)"
    using init
    by (auto simp: DownConvWithAttention_init_def truthy_def int_truediv_small ebind_def
          DownConv_features_def DownConv_init_def symbolic_ops_def tick_def rbind_def rlift_def
          rret_def py_index_def enumerate_eq_zip Let_def)
  have att: "MeshAttention_call symbolic_ops (dca_attention self) ?t (snd ?x) None 4
      = Inr ((Attention 0 (dca_attention self) ?t None, Attention 1 (dca_attention self) ?t None,
              Attention 2 (dca_attention self) ?t None, Attention 3 (dca_attention self) ?t None), 5)"
    by (simp add: symbolic_ops_def tick_def)
  have "DownConvWithAttention_forward symbolic_ops self ?x 0
      = Inr ((Attention 0 (dca_attention self) ?t None, None), 5)"
    using no_pool_forward [where ops = symbolic_ops and cin = 3 and cout = 8 and blocks = 0
        and n_heads = 4 and max_dist = None and dropout = None and prio = "Some True"
        and as_is = "Some True" and dbl = "Some True" and pos = None and rel = None and self = self
        and x = ?x and w = 0 and y = "Attention 0 (dca_attention self) ?t None"
        and before_pool = None and ?w1.0 = 5] init feat' att
    by blast
  with init plain show ?thesis by blast
qed

subsection \<open>UpConv: channels and the skip input\<close>

lemma UpConv_blocks_cat_frame:
  "UpConv_blocks (ops\<lparr>torch_cat := c\<rparr>) self meshes convs = UpConv_blocks ops self meshes convs"
proof (induction convs)
  case Nil
  show ?case by (rule ext) simp
next
  case (Cons p convs)
  obtain idx conv where p: "p = (idx, conv)" by (cases p)
  show ?case unfolding p by (rule ext) (simp add: Cons.IH cong: if_cong)
qed

lemma UpConv_up_cat_frame:
  "UpConv_up (ops\<lparr>torch_cat := c\<rparr>) self x = UpConv_up ops self x"
  by (simp add: UpConv_up_def split: prod.splits cong: option.case_cong)

lemma UpConv_init_sel:
  "uc_transfer_data (UpConv_init cin cout blocks unroll residual batch_norm td) = td"
  "uc_conv1 (UpConv_init cin cout blocks unroll residual batch_norm td) =
     (if td then MeshConv (2 * cout) cout else MeshConv cout cout)"
  "uc_unroll (UpConv_init cin cout blocks unroll residual batch_norm td) =
     (if unroll \<noteq> 0 then Some unroll else None)"
  "uc_up_conv (UpConv_init cin cout blocks unroll residual batch_norm td) = MeshConv cin cout"
  by (simp_all add: UpConv_init_def)

text \<open>
  C5.  An \<^verbatim>\<open>UpConv\<close> built with \<^verbatim>\<open>transfer_data=True\<close> declares \<^verbatim>\<open>conv1\<close> with
  \<open>2 * out_channels\<close> input channels, and a forward pass that returns has applied that
  convolution to the result of concatenating the unrolled features with the skip input.
  Built with \<^verbatim>\<open>transfer_data=False\<close>, \<^verbatim>\<open>conv1\<close> is declared with \<open>out_channels\<close> input
  channels and forward does not concatenate: its outcome depends neither on the
  concatenation collaborator nor on the skip argument.
\<close>

theorem upconv_conv1_channels:
  "uc_conv1 (UpConv_init cin cout blocks unroll residual batch_norm True) = MeshConv (2 * cout) cout
   \<and> uc_conv1 (UpConv_init cin cout blocks unroll residual batch_norm False) = MeshConv cout cout
   \<and> (UpConv_forward ops (UpConv_init cin cout blocks unroll residual batch_norm True) (fe, meshes) (Some d) w = Inr r
       \<longrightarrow> (\<exists>x1 w1 joined w2 y w3.
              UpConv_up ops (UpConv_init cin cout blocks unroll residual batch_norm True) (fe, meshes) w = Inr (x1, w1) \<and>
              torch_cat ops x1 d w1 = Inr (joined, w2) \<and>
              MeshConv_call ops (MeshConv (2 * cout) cout) joined meshes w2 = Inr (y, w3)))
   \<and> UpConv_forward (ops\<lparr>torch_cat := c\<rparr>) (UpConv_init cin cout blocks unroll residual batch_norm False) x from_down
       = UpConv_forward ops (UpConv_init cin cout blocks unroll residual batch_norm False) x from_down'"
proof (intro conjI impI)
  assume "UpConv_forward ops (UpConv_init cin cout blocks unroll residual batch_norm True) (fe, meshes) (Some d) w = Inr r"
  then show "\<exists>x1 w1 joined w2 y w3.
              UpConv_up ops (UpConv_init cin cout blocks unroll residual batch_norm True) (fe, meshes) w = Inr (x1, w1) \<and>
              torch_cat ops x1 d w1 = Inr (joined, w2) \<and>
              MeshConv_call ops (MeshConv (2 * cout) cout) joined meshes w2 = Inr (y, w3)"
    unfolding UpConv_forward_def
    by (simp add: rbind_Inr_iff UpConv_init_sel cat_from_down_def) blast
next
  show "UpConv_forward (ops\<lparr>torch_cat := c\<rparr>) (UpConv_init cin cout blocks unroll residual batch_norm False) x from_down
       = UpConv_forward ops (UpConv_init cin cout blocks unroll residual batch_norm False) x from_down'"
    by (cases x)
       (simp add: UpConv_forward_def UpConv_init_sel UpConv_up_cat_frame UpConv_blocks_cat_frame
                  rbind_rret cong: if_cong)
qed (simp_all add: UpConv_init_sel)

theorem upconv_conv1_channels_witness:
  "UpConv_forward symbolic_ops (UpConv_init 8 4 0 10 True True True) (Input 0, ()) (Some (Input 1)) 0
     = Inr (Call (Squeeze 3) (Call F_relu (Call (InstanceNorm2d 4) (Conv (MeshConv 8 4)
              (Cat (Unpool 10 (Call (Squeeze 3) (Conv (MeshConv 8 4) (Input 0)))) (Input 1))))), 8)
   \<and> (\<exists>x1 w1 joined w2 y w3.
        UpConv_up symbolic_ops (UpConv_init 8 4 0 10 True True True) (Input 0, ()) 0 = Inr (x1, w1) \<and>
        torch_cat symbolic_ops x1 (Input 1) w1 = Inr (joined, w2) \<and>
        MeshConv_call symbolic_ops (MeshConv (2 * 4) 4) joined () w2 = Inr (y, w3))"
proof -
  have run: "UpConv_forward symbolic_ops (UpConv_init 8 4 0 10 True True True) (Input 0, ()) (Some (Input 1)) 0
     = Inr (Call (Squeeze 3) (Call F_relu (Call (InstanceNorm2d 4) (Conv (MeshConv 8 4)
              (Cat (Unpool 10 (Call (Squeeze 3) (Conv (MeshConv 8 4) (Input 0)))) (Input 1))))), 8)"
    by code_simp
  with upconv_conv1_channels [where cin = 8 and cout = 4 and blocks = 0 and unroll = 10
      and residual = True and batch_norm = True and ops = symbolic_ops and fe = "Input 0"
      and meshes = "()" and d = "Input 1" and w = 0]
  show ?thesis by simp
qed

lemma MeshEncoder_init_double_attention:
  assumes "2 \<le> length convs"
  shows "\<exists>msg. MeshEncoder_init pools convs fcs blocks global_pool (Some h) max_dist dropout prio
                  (Some False) (Some True) pos rel = Inl (AssertionError msg)"
proof -
  from assms have upt: "[0 ..< length convs - 1] = 0 # [Suc 0 ..< length convs - 1]"
    by (simp add: upt_conv_Cons)
  have "MeshEncoder_conv pools convs blocks (Some h) max_dist dropout prio (Some False) (Some True) pos rel 0
          = Inl (AssertionError (''must have attn_use_values_as_is=True if double_attention=True, '' @
                                 ''since the attention layer works on its own outputs''))"
    by (simp add: MeshEncoder_conv_def DownConvWithAttention_init_def truthy_def Let_def ebind_def)
  then show ?thesis
    unfolding MeshEncoder_init_def upt by (simp add: ebind_def)
qed

text \<open>
  C2.  With \<^verbatim>\<open>double_attention=True\<close> and \<^verbatim>\<open>attn_use_values_as_is=False\<close> the constructors of
  \<^verbatim>\<open>MeshAttentionNet\<close> and of \<^verbatim>\<open>DownConvWithAttention\<close> stop at their assertion, whatever
  the other arguments are; so do the attention encoder and the attention encoder-decoder as
  soon as they build one stage.
\<close>

theorem double_attention_rejected:
  "MeshAttentionNet_init norm_layer nf0 conv_res nclasses input_res pool_res fc_n attn_n_heads nresblocks
      attn_max_dist attn_dropout prio (Some False) (Some True) pos rel
     = Inl (AssertionError (''must have attn_use_values_as_is=True if double_attention=True, '' @
                            ''since the attention layer works on its own outputs''))
   \<and> DownConvWithAttention_init cin cout blocks pool n_heads max_dist dropout prio'
        (Some False) (Some True) pos' rel'
     = Inl (AssertionError (''must have attn_use_values_as_is=True if double_attention=True, '' @
                            ''since the attention layer works on its own outputs''))
   \<and> (2 \<le> length convs \<longrightarrow>
        (\<exists>msg. MeshEncoder_init pools convs fcs blocks global_pool (Some n_heads) max_dist dropout prio'
                  (Some False) (Some True) pos' rel' = Inl (AssertionError msg))
        \<and> (\<exists>msg. MeshEncoderDecoderWithAttention_init pools convs up_convs blocks transfer_data
                  (Some n_heads) max_dist dropout prio' (Some False) (Some True) pos' rel'
                = Inl (AssertionError msg)))"
proof (intro conjI impI)
  assume len: "2 \<le> length convs"
  from MeshEncoder_init_double_attention [OF len]
  show "\<exists>msg. MeshEncoder_init pools convs fcs blocks global_pool (Some n_heads) max_dist dropout prio'
                  (Some False) (Some True) pos' rel' = Inl (AssertionError msg)"
    by blast
  from MeshEncoder_init_double_attention [OF len, of pools None blocks None n_heads max_dist dropout prio' pos' rel']
  show "\<exists>msg. MeshEncoderDecoderWithAttention_init pools convs up_convs blocks transfer_data
                  (Some n_heads) max_dist dropout prio' (Some False) (Some True) pos' rel'
                = Inl (AssertionError msg)"
    by (auto simp: MeshEncoderDecoderWithAttention_init_def ebind_def)
qed (simp_all add: MeshAttentionNet_init_def DownConvWithAttention_init_def truthy_def)

theorem double_attention_rejected_witness:
  "MeshAttentionNet_init (GroupNorm_partial 16) 5 [16, 32] 30 750 [600, 450] 100 4 1
      None None (Some True) (Some False) (Some True) None None
     = Inl (AssertionError (''must have attn_use_values_as_is=True if double_attention=True, '' @
                            ''since the attention layer works on its own outputs''))
   \<and> DownConvWithAttention_init 5 16 0 600 4 None None (Some True) (Some False) (Some True) None None
     = Inl (AssertionError (''must have attn_use_values_as_is=True if double_attention=True, '' @
                            ''since the attention layer works on its own outputs''))
   \<and> (\<exists>msg. MeshEncoder_init [750, 600, 450] [5, 16, 32] None 0 None (Some 4) None (Some 0) (Some True)
                (Some False) (Some True) None None = Inl (AssertionError msg))
   \<and> (\<exists>msg. MeshEncoderDecoderWithAttention_init [750, 600, 450] [5, 16, 32] [32, 16, 8] 0 True
                (Some 4) None (Some 0) (Some True) (Some False) (Some True) None None
              = Inl (AssertionError msg))"
proof -
  have len: "2 \<le> length [5, 16, 32 :: int]" by simp
  note T = double_attention_rejected [where norm_layer = "GroupNorm_partial 16" and ?nf0.0 = 5
      and conv_res = "[16, 32]" and nclasses = 30 and input_res = 750 and pool_res = "[600, 450]"
      and fc_n = 100 and attn_n_heads = 4 and nresblocks = 1 and attn_max_dist = None
      and attn_dropout = None and prio = "Some True" and pos = None and rel = None
      and cin = 5 and cout = 16 and blocks = 0 and pool = 600 and n_heads = 4 and max_dist = None
      and prio' = "Some True" and pos' = None and rel' = None
      and convs = "[5, 16, 32]" and pools = "[750, 600, 450]" and fcs = None and global_pool = None
      and up_convs = "[32, 16, 8]" and transfer_data = True]
  from T [where dropout = None] T [where dropout = "Some 0"] len show ?thesis
    by blast
qed

subsection \<open>The decoder's skip inputs\<close>

lemma rbind_not_Inr: "(\<And>r. m w \<noteq> Inr r) \<Longrightarrow> rbind m f w \<noteq> Inr r'"
  by (auto simp: rbind_def split: sum.splits)

lemma UpConv_forward_null_skip:
  "uc_transfer_data self \<Longrightarrow> UpConv_forward ops self x None w \<noteq> Inr r"
  by (cases x)
     (auto simp: UpConv_forward_def cat_from_down_def rraise_def rbind_def split: sum.splits prod.splits)

lemma MeshDecoder_init_Inr:
  assumes "MeshDecoder_init unrolls convs blocks batch_norm transfer_data = Inr dec"
  shows "2 \<le> length convs"
    and "dec_up_convs dec =
           map (\<lambda>i. UpConv_init (convs ! i) (convs ! (i + 1)) blocks
                       (if i < length unrolls then unrolls ! i else 0) True batch_norm transfer_data)
             [0 ..< length convs - 2]"
    and "dec_final_conv dec =
           UpConv_init (convs ! (length convs - 2)) (convs ! (length convs - 1)) blocks 0 True batch_norm False"
proof -
  from assms obtain c_in c_out where
    idx: "py_index convs (- 2) = Inr c_in" "py_index convs (- 1) = Inr c_out" and
    dec: "dec = \<lparr> dec_up_convs =
                    map (\<lambda>i. UpConv_init (convs ! i) (convs ! (i + 1)) blocks
                       (if i < length unrolls then unrolls ! i else 0) True batch_norm transfer_data)
                      [0 ..< length convs - 2],
                  dec_final_conv = UpConv_init c_in c_out blocks 0 True batch_norm False \<rparr>"
    by (auto simp: MeshDecoder_init_def Let_def ebind_Inr_iff)
  from idx(1) show len: "2 \<le> length convs"
    by (auto simp: py_index_def split: if_splits)
  from idx(1) len have "c_in = convs ! (length convs - 2)"
    by (auto simp: py_index_def nat_diff_distrib' split: if_splits)
  moreover from idx(2) len have "c_out = convs ! (length convs - 1)"
    by (auto simp: py_index_def nat_diff_distrib' split: if_splits)
  ultimately show "dec_final_conv dec =
           UpConv_init (convs ! (length convs - 2)) (convs ! (length convs - 1)) blocks 0 True batch_norm False"
    by (simp add: dec)
  show "dec_up_convs dec =
           map (\<lambda>i. UpConv_init (convs ! i) (convs ! (i + 1)) blocks
                       (if i < length unrolls then unrolls ! i else 0) True batch_norm transfer_data)
             [0 ..< length convs - 2]"
    by (simp add: dec)
qed

text \<open>
  C9.  An \<^verbatim>\<open>UpConv\<close> with \<^verbatim>\<open>transfer_data\<close> set never returns from \<^verbatim>\<open>forward\<close> when the skip
  argument is \<^verbatim>\<open>None\<close>; once the up-convolution and unrolling have gone through, the failure is
  the \<^verbatim>\<open>TypeError\<close> of the concatenation.  Hence a \<^verbatim>\<open>MeshDecoder\<close> built with
  \<^verbatim>\<open>transfer_data=True\<close> that owns at least one up-conv stage never returns when it is called
  without a skip cache.
\<close>

theorem null_skip_fails:
  "(uc_transfer_data self \<longrightarrow> UpConv_forward ops self x None w \<noteq> Inr r)
   \<and> (uc_transfer_data self \<and> UpConv_up ops self x w = Inr (x1, w1)
        \<longrightarrow> UpConv_forward ops self x None w = Inl TypeError)
   \<and> (MeshDecoder_init unrolls convs blocks batch_norm True = Inr dec \<and> 3 \<le> length convs
        \<longrightarrow> MeshDecoder_forward ops dec x None w \<noteq> Inr r)"
proof (intro conjI impI)
  show "UpConv_forward ops self x None w \<noteq> Inr r" if "uc_transfer_data self"
    using that by (rule UpConv_forward_null_skip)
  show "UpConv_forward ops self x None w = Inl TypeError"
    if "uc_transfer_data self \<and> UpConv_up ops self x w = Inr (x1, w1)"
    using that
    by (cases x) (simp add: UpConv_forward_def cat_from_down_def rraise_def rbind_def)
  show "MeshDecoder_forward ops dec x None w \<noteq> Inr r"
    if h: "MeshDecoder_init unrolls convs blocks batch_norm True = Inr dec \<and> 3 \<le> length convs"
  proof -
    obtain fe meshes where x: "x = (fe, meshes)" by (cases x)
    from h have n: "length convs - 2 = Suc (length convs - 3)" by arith
    from MeshDecoder_init_Inr(2) [of unrolls convs blocks batch_norm True dec] h
    obtain u us where ups: "dec_up_convs dec = u # us" and td: "uc_transfer_data u"
      by (auto simp: n upt_conv_Cons UpConv_init_sel simp del: upt_Suc)
    have "MeshDecoder_up_loop ops meshes None (List.enumerate 0 (dec_up_convs dec)) fe w \<noteq> Inr r'" for r'
      unfolding ups
      by (simp add: rbind_rret) (rule rbind_not_Inr, rule UpConv_forward_null_skip [OF td])
    then show ?thesis
      unfolding x MeshDecoder_forward_def by (simp add: rbind_not_Inr)
  qed
qed

lemma py_index_from_end:
  "i + 2 \<le> length outs \<Longrightarrow> py_index outs (- int i - 2) = Inr (outs ! (length outs - (i + 2)))"
  by (auto simp: py_index_def nat_diff_distrib' algebra_simps intro!: arg_cong [where f = "(!) outs"])

lemma up_loop_with_cache:
  "\<forall>(i, u) \<in> set ius. i + 2 \<le> length outs \<Longrightarrow>
   MeshDecoder_up_loop ops meshes (Some outs) ius =
     apply_up_stages ops meshes (map (\<lambda>(i, u). (u, outs ! (length outs - (i + 2)))) ius)"
proof (induction ius)
  case Nil
  show ?case by (rule ext) simp
next
  case (Cons p ius)
  obtain i u where p: "p = (i, u)" by (cases p)
  from Cons.prems have i: "i + 2 \<le> length outs" and rest: "\<forall>(i, u) \<in> set ius. i + 2 \<le> length outs"
    by (auto simp: p)
  show ?case
    by (rule ext) (simp add: p py_index_from_end [OF i] rlift_def rbind_rret Cons.IH [OF rest])
qed

lemma up_loop_without_cache:
  "MeshDecoder_up_loop ops meshes None ius =
     apply_up_stages ops meshes (map (\<lambda>(i, u). (u, None)) ius)"
proof (induction ius)
  case Nil
  show ?case by (rule ext) simp
next
  case (Cons p ius)
  obtain i u where p: "p = (i, u)" by (cases p)
  show ?case by (rule ext) (simp add: p rbind_rret Cons.IH)
qed

lemma map_enumerate_zip:
  "map (\<lambda>(i, u). (u, f i)) (List.enumerate 0 us) = zip us (map f [0 ..< length us])"
  by (rule nth_equalityI) (simp_all add: nth_enumerate_eq)

lemma skips_reversed:
  "n + 1 \<le> length outs \<Longrightarrow>
   map (\<lambda>i. outs ! (length outs - (i + 2))) [0 ..< n] = take n (drop 1 (rev outs))"
  by (rule nth_equalityI) (simp_all add: rev_nth)

text \<open>
  C3.  Called with a skip cache that is long enough, \<^verbatim>\<open>MeshDecoder.forward\<close> applies its up-conv
  stages in order, stage \<open>i\<close> receiving \<^verbatim>\<open>encoder_outs[-(i+2)]\<close> (the cache reversed, its last
  entry skipped), and then the final stage with a \<^verbatim>\<open>None\<close> skip.  Called without a cache,
  every up-conv stage receives \<^verbatim>\<open>None\<close>.  The final stage is built with no unrolling and no
  skip transfer, from the last two declared channel counts.
\<close>

theorem decoder_skip_inputs:
  "(length (dec_up_convs dec) + 1 \<le> length outs \<longrightarrow>
      MeshDecoder_forward ops dec (fe, meshes) (Some outs) =
        rbind (apply_up_stages ops meshes
                 (zip (dec_up_convs dec)
                      (map (\<lambda>i. outs ! (length outs - (i + 2))) [0 ..< length (dec_up_convs dec)])) fe)
          (\<lambda>fe. UpConv_forward ops (dec_final_conv dec) (fe, meshes) None)
      \<and> map (\<lambda>i. outs ! (length outs - (i + 2))) [0 ..< length (dec_up_convs dec)]
          = take (length (dec_up_convs dec)) (drop 1 (rev outs)))
   \<and> MeshDecoder_forward ops dec (fe, meshes) None =
        rbind (apply_up_stages ops meshes (map (\<lambda>u. (u, None)) (dec_up_convs dec)) fe)
          (\<lambda>fe. UpConv_forward ops (dec_final_conv dec) (fe, meshes) None)
   \<and> (MeshDecoder_init unrolls convs blocks batch_norm transfer_data = Inr dec' \<longrightarrow>
        2 \<le> length convs
        \<and> dec_final_conv dec' =
            UpConv_init (convs ! (length convs - 2)) (last convs) blocks 0 True batch_norm False
        \<and> uc_unroll (dec_final_conv dec') = None
        \<and> \<not> uc_transfer_data (dec_final_conv dec')
        \<and> uc_up_conv (dec_final_conv dec') = MeshConv (convs ! (length convs - 2)) (last convs)
        \<and> uc_conv1 (dec_final_conv dec') = MeshConv (last convs) (last convs))"
proof (intro conjI impI)
  assume len: "length (dec_up_convs dec) + 1 \<le> length outs"
  have "\<forall>(i, u) \<in> set (List.enumerate 0 (dec_up_convs dec)). i + 2 \<le> length outs"
    using len by (auto simp: enumerate_eq_zip dest!: set_zip_leftD)
  from up_loop_with_cache [OF this, of ops meshes]
  show "MeshDecoder_forward ops dec (fe, meshes) (Some outs) =
        rbind (apply_up_stages ops meshes
                 (zip (dec_up_convs dec)
                      (map (\<lambda>i. outs ! (length outs - (i + 2))) [0 ..< length (dec_up_convs dec)])) fe)
          (\<lambda>fe. UpConv_forward ops (dec_final_conv dec) (fe, meshes) None)"
    by (simp add: MeshDecoder_forward_def map_enumerate_zip)
  from len show "map (\<lambda>i. outs ! (length outs - (i + 2))) [0 ..< length (dec_up_convs dec)]
          = take (length (dec_up_convs dec)) (drop 1 (rev outs))"
    by (rule skips_reversed)
next
  have e: "map (\<lambda>(i, u). (u, None)) (List.enumerate 0 (dec_up_convs dec)) = map (\<lambda>u. (u, None)) (dec_up_convs dec)"
    by (rule nth_equalityI) (simp_all add: nth_enumerate_eq)
  show "MeshDecoder_forward ops dec (fe, meshes) None =
        rbind (apply_up_stages ops meshes (map (\<lambda>u. (u, None)) (dec_up_convs dec)) fe)
          (\<lambda>fe. UpConv_forward ops (dec_final_conv dec) (fe, meshes) None)"
    unfolding MeshDecoder_forward_def up_loop_without_cache e by simp
next
  assume init: "MeshDecoder_init unrolls convs blocks batch_norm transfer_data = Inr dec'"
  note facts = MeshDecoder_init_Inr [OF init]
  from facts(1) show "2 \<le> length convs" .
  from facts(1) have last: "convs ! (length convs - 1) = last convs"
    by (cases convs rule: rev_cases) auto
  from facts(3) last show fin: "dec_final_conv dec' =
            UpConv_init (convs ! (length convs - 2)) (last convs) blocks 0 True batch_norm False"
    by simp
  show "uc_unroll (dec_final_conv dec') = None" "\<not> uc_transfer_data (dec_final_conv dec')"
    "uc_up_conv (dec_final_conv dec') = MeshConv (convs ! (length convs - 2)) (last convs)"
    "uc_conv1 (dec_final_conv dec') = MeshConv (last convs) (last convs)"
    by (simp_all add: fin UpConv_init_sel)
qed

subsection \<open>The encoder's skip cache\<close>

lemma rbind_assoc: "rbind (rbind m f) g = rbind m (\<lambda>a. rbind (f a) g)"
  by (rule ext) (simp add: rbind_def split: sum.splits prod.splits)

lemma down_stage_call_null_iff:
  "down_stage_call ops conv x w = Inr ((y, before_pool), w1) \<Longrightarrow>
   (before_pool = None) = (down_stage_pool conv = None)"
  by (cases conv; cases x)
     (auto simp: down_stage_call_def down_stage_pool_def DownConv_forward_def
                 DownConvWithAttention_forward_def rbind_Inr_iff rret_Inr_iff Let_def
           split: option.splits prod.splits)

lemma DownConv_forward_snapshot:
  "DownConv_forward ops self x w = Inr ((y, Some s), w1) \<Longrightarrow>
   \<exists>w2 p. DownConv_features ops self x w = Inr (s, w2) \<and> dc_pool self = Some p \<and>
      MeshPool_call ops p s (snd x) None w2 = Inr (y, w1)"
  by (auto simp: DownConv_forward_def rbind_Inr_iff rret_Inr_iff split: option.splits)

lemma DownConvWithAttention_forward_snapshot:
  assumes "DownConvWithAttention_forward ops self x w = Inr ((y, Some s), w1)"
  shows "\<exists>w2 w3 p prio attn attn_per_edge dist_matrices.
      DownConvWithAttention_attend ops self x w = Inr ((s, attn, attn_per_edge, dist_matrices), w2) \<and>
      dca_real_pool self = Some p \<and> MeshPool_call ops p s (snd x) prio w3 = Inr (y, w1)"
proof -
  obtain fe meshes where x: "x = (fe, meshes)" by (cases x)
  from assms obtain x2 attn ape dm w2 where
    att: "DownConvWithAttention_attend ops self x w = Inr ((x2, attn, ape, dm), w2)" and
    rest: "(case dca_real_pool self of
             None \<Rightarrow> rret (x2, None)
           | Some p \<Rightarrow>
               rbind (if truthy (dca_double_attention self) then
                        rbind (nn_call ops Detach x2) (\<lambda>detached.
                        rbind (MeshAttention_call ops (dca_attention self) detached meshes (Some dm))
                          (\<lambda>(_, _, attn_per_edge, _). rret attn_per_edge))
                      else rret ape) (\<lambda>attn_per_edge.
               let edge_priorities =
                     (if truthy (dca_prioritize_with_attention self) then Some attn_per_edge else None)
               in rbind (MeshPool_call ops p x2 meshes edge_priorities)
                    (\<lambda>pooled. rret (pooled, Some x2)))) w2 = Inr ((y, Some s), w1)"
    unfolding DownConvWithAttention_forward_def x
    by (auto simp: rbind_Inr_iff)
  from rest obtain p where p: "dca_real_pool self = Some p"
    by (auto simp: rret_Inr_iff split: option.splits)
  from rest obtain prio w3 where "MeshPool_call ops p x2 meshes prio w3 = Inr (y, w1)" and "s = x2"
    unfolding p by (auto simp: rbind_Inr_iff rret_Inr_iff Let_def)
  with att p show ?thesis
    by (auto simp: x)
qed

lemma down_stage_call_snapshot:
  assumes "down_stage_call ops conv x w = Inr ((y, Some s), w1)"
  shows "\<exists>w2 w3 p prio. down_stage_features ops conv x w = Inr (s, w2) \<and>
      down_stage_pool conv = Some p \<and> MeshPool_call ops p s (snd x) prio w3 = Inr (y, w1)"
proof (cases conv)
  case (Plain dc)
  with assms have "DownConv_forward ops dc x w = Inr ((y, Some s), w1)"
    by (simp add: down_stage_call_def)
  from DownConv_forward_snapshot [OF this] show ?thesis
    by (auto simp: Plain down_stage_features_def down_stage_pool_def)
next
  case (WithAttention dca)
  with assms have "DownConvWithAttention_forward ops dca x w = Inr ((y, Some s), w1)"
    by (simp add: down_stage_call_def)
  from DownConvWithAttention_forward_snapshot [OF this] obtain w2 w3 p prio attn ape dm where
    "DownConvWithAttention_attend ops dca x w = Inr ((s, attn, ape, dm), w2)"
    "dca_real_pool dca = Some p" "MeshPool_call ops p s (snd x) prio w3 = Inr (y, w1)"
    by blast
  then show ?thesis
    by (auto simp: WithAttention down_stage_features_def down_stage_pool_def rbind_Inr_iff rret_Inr_iff)
qed

lemma convs_loop_append:
  "MeshEncoder_convs_loop ops meshes (xs @ ys) fe acc =
     rbind (MeshEncoder_convs_loop ops meshes xs fe acc)
       (\<lambda>(fe', acc'). MeshEncoder_convs_loop ops meshes ys fe' acc')"
  by (induction xs arbitrary: fe acc) (simp_all add: rbind_rret rbind_assoc split_def)

lemma convs_loop_outs:
  "MeshEncoder_convs_loop ops meshes stages fe acc w = Inr ((fe', outs), w') \<Longrightarrow>
   \<exists>new. outs = acc @ new \<and> length new = length stages \<and>
     (\<forall>i<length stages. (new ! i = None) = (down_stage_pool (stages ! i) = None))"
proof (induction stages arbitrary: fe acc w)
  case Nil
  then show ?case by (simp add: rret_Inr_iff)
next
  case (Cons conv stages)
  from Cons.prems obtain y before_pool w1 where
    call: "down_stage_call ops conv (fe, meshes) w = Inr ((y, before_pool), w1)" and
    rest: "MeshEncoder_convs_loop ops meshes stages y (acc @ [before_pool]) w1 = Inr ((fe', outs), w')"
    by (auto simp: rbind_Inr_iff)
  from Cons.IH [OF rest] obtain new where
    new: "outs = (acc @ [before_pool]) @ new" "length new = length stages"
      "\<forall>i<length stages. (new ! i = None) = (down_stage_pool (stages ! i) = None)"
    by blast
  have "\<forall>i<length (conv # stages).
          ((before_pool # new) ! i = None) = (down_stage_pool ((conv # stages) ! i) = None)"
    using new(3) down_stage_call_null_iff [OF call] by (auto simp: nth_Cons split: nat.splits)
  with new(1,2) show ?case
    by (intro exI [where x = "before_pool # new"]) simp
qed

lemma convs_loop_snapshot:
  assumes run: "MeshEncoder_convs_loop ops meshes stages fe [] w = Inr ((fe', outs), w')"
    and i: "i < length stages" and s: "outs ! i = Some s"
  shows "\<exists>fe_i w_i w1. MeshEncoder_convs_loop ops meshes (take i stages) fe [] w
                          = Inr ((fe_i, take i outs), w_i)
           \<and> down_stage_features ops (stages ! i) (fe_i, meshes) w_i = Inr (s, w1)"
proof -
  have split: "stages = take i stages @ (stages ! i # drop (Suc i) stages)"
    using i by (simp add: id_take_nth_drop [symmetric])
  from run obtain fe_i outs_i w_i where
    pre: "MeshEncoder_convs_loop ops meshes (take i stages) fe [] w = Inr ((fe_i, outs_i), w_i)" and
    post: "MeshEncoder_convs_loop ops meshes (stages ! i # drop (Suc i) stages) fe_i outs_i w_i
             = Inr ((fe', outs), w')"
    by (subst (asm) split) (auto simp: convs_loop_append rbind_Inr_iff)
  from convs_loop_outs [OF pre] i have len: "length outs_i = i"
    by auto
  from post obtain y before_pool w2 where
    call: "down_stage_call ops (stages ! i) (fe_i, meshes) w_i = Inr ((y, before_pool), w2)" and
    rest: "MeshEncoder_convs_loop ops meshes (drop (Suc i) stages) y (outs_i @ [before_pool]) w2
             = Inr ((fe', outs), w')"
    by (auto simp: rbind_Inr_iff)
  from convs_loop_outs [OF rest] obtain new where outs: "outs = (outs_i @ [before_pool]) @ new"
    by blast
  from outs len have "outs ! i = before_pool" "take i outs = outs_i"
    by (simp_all add: nth_append)
  with s call pre down_stage_call_snapshot [of ops "stages ! i" "(fe_i, meshes)" w_i y s w2]
  show ?thesis by auto
qed

lemma build_each_Inr:
  "build_each mk xs = Inr ys \<Longrightarrow> length ys = length xs \<and> (\<forall>j<length xs. mk (xs ! j) = Inr (ys ! j))"
proof (induction xs arbitrary: ys)
  case Nil
  then show ?case by simp
next
  case (Cons x xs)
  from Cons.prems obtain c cs where c: "mk x = Inr c" and cs: "build_each mk xs = Inr cs"
    and ys: "ys = c # cs"
    by (auto simp: ebind_Inr_iff)
  from Cons.IH [OF cs] c show ?case
    by (auto simp: ys nth_Cons split: nat.splits)
qed

lemma MeshEncoder_conv_pool:
  "MeshEncoder_conv pools convs blocks n_heads max_dist dropout prio as_is dbl pos rel i = Inr conv \<Longrightarrow>
   (down_stage_pool conv \<noteq> None) = (i + 1 < length pools \<and> pools ! (i + 1) \<noteq> 0)"
  by (auto simp: MeshEncoder_conv_def down_stage_pool_def DownConv_init_pool Let_def ebind_Inr_iff
           dest!: DownConvWithAttention_init_pools(2)
           split: option.splits if_splits)

lemma MeshEncoder_init_convs:
  "MeshEncoder_init pools convs fcs blocks global_pool n_heads max_dist dropout prio as_is dbl pos rel = Inr enc \<Longrightarrow>
   build_each (MeshEncoder_conv pools convs blocks n_heads max_dist dropout prio as_is dbl pos rel)
     [0 ..< length convs - 1] = Inr (enc_convs enc)"
  by (auto simp: MeshEncoder_init_def ebind_Inr_iff split: if_splits option.splits)

lemma MeshEncoder_forward_outs:
  "MeshEncoder_forward ops enc (fe, meshes) w = Inr ((out, outs), w') \<Longrightarrow>
   \<exists>fe' w1. MeshEncoder_convs_loop ops meshes (enc_convs enc) fe [] w = Inr ((fe', outs), w1)"
  by (auto simp: MeshEncoder_forward_def rbind_Inr_iff rret_Inr_iff split: option.splits)

text \<open>
  C1.  For an encoder built from a pool schedule and a channel schedule, a forward pass that
  returns yields a skip cache with one entry per stage, \<open>length convs - 1\<close> of them; entry
  \<open>i\<close> is not \<^verbatim>\<open>None\<close> exactly when \<open>i + 1\<close> indexes a nonzero entry of the pool schedule; and
  such an entry is the feature tensor stage \<open>i\<close> computed, before pooling, from the output of
  the stages before it.
\<close>

theorem encoder_skip_cache:
  "MeshEncoder_init pools convs fcs blocks global_pool n_heads max_dist dropout prio as_is dbl pos rel = Inr enc
   \<and> MeshEncoder_forward ops enc (fe, meshes) w = Inr ((out, encoder_outs), w')
   \<longrightarrow> length (enc_convs enc) = length convs - 1
     \<and> length encoder_outs = length convs - 1
     \<and> (\<forall>i<length encoder_outs.
           (encoder_outs ! i \<noteq> None) = (i + 1 < length pools \<and> pools ! (i + 1) \<noteq> 0))
     \<and> (\<forall>i<length encoder_outs. \<forall>s. encoder_outs ! i = Some s \<longrightarrow>
           (\<exists>fe_i w_i w1.
              MeshEncoder_convs_loop ops meshes (take i (enc_convs enc)) fe [] w
                = Inr ((fe_i, take i encoder_outs), w_i)
              \<and> down_stage_features ops (enc_convs enc ! i) (fe_i, meshes) w_i = Inr (s, w1)))"
proof (intro impI, elim conjE)
  assume init: "MeshEncoder_init pools convs fcs blocks global_pool n_heads max_dist dropout prio as_is dbl pos rel = Inr enc"
    and fwd: "MeshEncoder_forward ops enc (fe, meshes) w = Inr ((out, encoder_outs), w')"
  from build_each_Inr [OF MeshEncoder_init_convs [OF init]]
  have n: "length (enc_convs enc) = length convs - 1"
    and each: "\<forall>j<length convs - 1.
        MeshEncoder_conv pools convs blocks n_heads max_dist dropout prio as_is dbl pos rel j
          = Inr (enc_convs enc ! j)"
    by simp_all
  from MeshEncoder_forward_outs [OF fwd] obtain fe' w1 where
    loop: "MeshEncoder_convs_loop ops meshes (enc_convs enc) fe [] w = Inr ((fe', encoder_outs), w1)"
    by blast
  from convs_loop_outs [OF loop]
  have len: "length encoder_outs = length (enc_convs enc)"
    and null: "\<forall>i<length (enc_convs enc).
                 (encoder_outs ! i = None) = (down_stage_pool (enc_convs enc ! i) = None)"
    by auto
  have pools: "(encoder_outs ! i \<noteq> None) = (i + 1 < length pools \<and> pools ! (i + 1) \<noteq> 0)"
    if "i < length encoder_outs" for i
  proof -
    from that len n have i: "i < length convs - 1" by simp
    with each have "MeshEncoder_conv pools convs blocks n_heads max_dist dropout prio as_is dbl pos rel i
          = Inr (enc_convs enc ! i)" by blast
    from MeshEncoder_conv_pool [OF this] null i n show ?thesis by simp
  qed
  have snap: "\<exists>fe_i w_i w1.
              MeshEncoder_convs_loop ops meshes (take i (enc_convs enc)) fe [] w
                = Inr ((fe_i, take i encoder_outs), w_i)
              \<and> down_stage_features ops (enc_convs enc ! i) (fe_i, meshes) w_i = Inr (s, w1)"
    if "i < length encoder_outs" "encoder_outs ! i = Some s" for i s
    using convs_loop_snapshot [OF loop _ that(2)] that(1) len by simp
  from n len pools snap
  show "length (enc_convs enc) = length convs - 1
     \<and> length encoder_outs = length convs - 1
     \<and> (\<forall>i<length encoder_outs.
           (encoder_outs ! i \<noteq> None) = (i + 1 < length pools \<and> pools ! (i + 1) \<noteq> 0))
     \<and> (\<forall>i<length encoder_outs. \<forall>s. encoder_outs ! i = Some s \<longrightarrow>
           (\<exists>fe_i w_i w1.
              MeshEncoder_convs_loop ops meshes (take i (enc_convs enc)) fe [] w
                = Inr ((fe_i, take i encoder_outs), w_i)
              \<and> down_stage_features ops (enc_convs enc ! i) (fe_i, meshes) w_i = Inr (s, w1)))"
    by simp
qed

theorem null_skip_fails_witness:
  "UpConv_forward symbolic_ops (UpConv_init 8 4 0 20 True True True) (Input 0, ()) None 0 = Inl TypeError
   \<and> (\<exists>dec. MeshDecoder_init [20] [8, 4, 2] 0 True True = Inr dec
          \<and> isl (MeshDecoder_forward symbolic_ops dec (Input 0, ()) None 0))"
proof -
  let ?u = "UpConv_init 8 4 0 20 True True True"
  let ?X = "MeshDecoder_init [20] [8, 4, 2] 0 True True"
  have up: "UpConv_up symbolic_ops ?u (Input 0, ()) 0
              = Inr (Unpool 20 (Call (Squeeze 3) (Conv (MeshConv 8 4) (Input 0))), 3)"
    by code_simp
  have td: "uc_transfer_data ?u"
    by (simp add: UpConv_init_sel)
  have "\<not> isl ?X" by code_simp
  then have init: "?X = Inr (projr ?X)" by simp
  have len: "3 \<le> length [8, 4, 2 :: int]" by simp
  note T = null_skip_fails [where self = ?u and ops = symbolic_ops and x = "(Input 0, ())" and w = 0
      and ?x1.0 = "Unpool 20 (Call (Squeeze 3) (Conv (MeshConv 8 4) (Input 0)))" and ?w1.0 = 3
      and unrolls = "[20]" and convs = "[8, 4, 2]" and blocks = 0 and batch_norm = True
      and dec = "projr ?X"]
  from T td up have a: "UpConv_forward symbolic_ops ?u (Input 0, ()) None 0 = Inl TypeError"
    by blast
  from T init len have "MeshDecoder_forward symbolic_ops (projr ?X) (Input 0, ()) None 0 \<noteq> Inr r" for r
    by blast
  then have "isl (MeshDecoder_forward symbolic_ops (projr ?X) (Input 0, ()) None 0)"
    by (metis sum.collapse(2))
  with a init show ?thesis by blast
qed

theorem decoder_skip_inputs_witness:
  "\<exists>dec. MeshDecoder_init [20] [8, 4, 2] 0 True True = Inr dec
     \<and> MeshDecoder_forward symbolic_ops dec (Input 0, ())
          (Some [Some (Input 1), Some (Input 2), None]) 0
        = Inr (Call (Squeeze 3) (Call F_relu (Call (InstanceNorm2d 2) (Conv (MeshConv 2 2)
                 (Call (Squeeze 3) (Conv (MeshConv 4 2)
                   (Call (Squeeze 3) (Call F_relu (Call (InstanceNorm2d 4) (Conv (MeshConv 8 4)
                      (Cat (Unpool 20 (Call (Squeeze 3) (Conv (MeshConv 8 4) (Input 0))))
                           (Input 2))))))))))), 14)
     \<and> uc_unroll (dec_final_conv dec) = None
     \<and> \<not> uc_transfer_data (dec_final_conv dec)
     \<and> uc_up_conv (dec_final_conv dec) = MeshConv 4 2"
proof -
  let ?X = "MeshDecoder_init [20] [8, 4, 2] 0 True True"
  let ?outs = "[Some (Input 1), Some (Input 2), None]"
  have "\<not> isl ?X" by code_simp
  then have init: "?X = Inr (projr ?X)" by simp
  have len: "length (dec_up_convs (projr ?X)) + 1 \<le> length ?outs"
    by code_simp
  have rhs: "rbind (apply_up_stages symbolic_ops ()
                 (zip (dec_up_convs (projr ?X))
                      (map (\<lambda>i. ?outs ! (length ?outs - (i + 2))) [0 ..< length (dec_up_convs (projr ?X))]))
                 (Input 0))
          (\<lambda>fe. UpConv_forward symbolic_ops (dec_final_conv (projr ?X)) (fe, ()) None) 0
        = Inr (Call (Squeeze 3) (Call F_relu (Call (InstanceNorm2d 2) (Conv (MeshConv 2 2)
                 (Call (Squeeze 3) (Conv (MeshConv 4 2)
                   (Call (Squeeze 3) (Call F_relu (Call (InstanceNorm2d 4) (Conv (MeshConv 8 4)
                      (Cat (Unpool 20 (Call (Squeeze 3) (Conv (MeshConv 8 4) (Input 0))))
                           (Input 2))))))))))), 14)"
    by code_simp
  note T = decoder_skip_inputs [where dec = "projr ?X" and outs = ?outs and ops = symbolic_ops
      and fe = "Input 0" and meshes = "()" and unrolls = "[20]" and convs = "[8, 4, 2]" and blocks = 0
      and batch_norm = True and transfer_data = True and dec' = "projr ?X"]
  from T [THEN conjunct1, THEN mp, OF len, THEN conjunct1] rhs
  have fwd: "MeshDecoder_forward symbolic_ops (projr ?X) (Input 0, ()) (Some ?outs) 0
        = Inr (Call (Squeeze 3) (Call F_relu (Call (InstanceNorm2d 2) (Conv (MeshConv 2 2)
                 (Call (Squeeze 3) (Conv (MeshConv 4 2)
                   (Call (Squeeze 3) (Call F_relu (Call (InstanceNorm2d 4) (Conv (MeshConv 8 4)
                      (Cat (Unpool 20 (Call (Squeeze 3) (Conv (MeshConv 8 4) (Input 0))))
                           (Input 2))))))))))), 14)"
    by (simp only:)
  from T [THEN conjunct2, THEN conjunct2, THEN mp, OF init]
  have "uc_unroll (dec_final_conv (projr ?X)) = None"
    "\<not> uc_transfer_data (dec_final_conv (projr ?X))"
    "uc_up_conv (dec_final_conv (projr ?X)) = MeshConv 4 2"
    by (simp_all add: UpConv_init_sel)
  with init fwd show ?thesis by blast
qed

theorem encoder_skip_cache_witness:
  "\<exists>enc. MeshEncoder_init [100, 60, 30] [5, 16, 32, 64] None 0 None None None None None None None None None
            = Inr enc
     \<and> MeshEncoder_forward symbolic_ops enc (Input 0, ()) 0
        = Inr ((Call (Squeeze 3) (Call F_relu (Call (InstanceNorm2d 64) (Conv (MeshConv 32 64)
                  (Pool 30 (Call (Squeeze 3) (Call F_relu (Call (InstanceNorm2d 32) (Conv (MeshConv 16 32)
                     (Pool 60 (Call (Squeeze 3) (Call F_relu (Call (InstanceNorm2d 16)
                        (Conv (MeshConv 5 16) (Input 0))))) None))))) None)))),
                [Some (Call (Squeeze 3) (Call F_relu (Call (InstanceNorm2d 16) (Conv (MeshConv 5 16) (Input 0))))),
                 Some (Call (Squeeze 3) (Call F_relu (Call (InstanceNorm2d 32) (Conv (MeshConv 16 32)
                     (Pool 60 (Call (Squeeze 3) (Call F_relu (Call (InstanceNorm2d 16)
                        (Conv (MeshConv 5 16) (Input 0))))) None))))),
                 None]), 14)
     \<and> length (enc_convs enc) = 3
     \<and> (\<exists>fe_i w_i w1.
           MeshEncoder_convs_loop symbolic_ops () (take 1 (enc_convs enc)) (Input 0) [] 0
             = Inr ((fe_i, [Some (Call (Squeeze 3) (Call F_relu (Call (InstanceNorm2d 16)
                               (Conv (MeshConv 5 16) (Input 0)))))]), w_i)
           \<and> down_stage_features symbolic_ops (enc_convs enc ! 1) (fe_i, ()) w_i
               = Inr (Call (Squeeze 3) (Call F_relu (Call (InstanceNorm2d 32) (Conv (MeshConv 16 32)
                     (Pool 60 (Call (Squeeze 3) (Call F_relu (Call (InstanceNorm2d 16)
                        (Conv (MeshConv 5 16) (Input 0))))) None)))), w1))"
proof -
  let ?X = "MeshEncoder_init [100, 60, 30] [5, 16, 32, 64] None 0 None None None None None None None None None"
  let ?s0 = "Call (Squeeze 3) (Call F_relu (Call (InstanceNorm2d 16) (Conv (MeshConv 5 16) (Input 0))))"
  let ?s1 = "Call (Squeeze 3) (Call F_relu (Call (InstanceNorm2d 32) (Conv (MeshConv 16 32)
                     (Pool 60 ?s0 None))))"
  let ?out = "Call (Squeeze 3) (Call F_relu (Call (InstanceNorm2d 64) (Conv (MeshConv 32 64)
                  (Pool 30 ?s1 None))))"
  let ?outs = "[Some ?s0, Some ?s1, None]"
  have "\<not> isl ?X" by code_simp
  then have init: "?X = Inr (projr ?X)" by simp
  have fwd: "MeshEncoder_forward symbolic_ops (projr ?X) (Input 0, ()) 0 = Inr ((?out, ?outs), 14)"
    by code_simp
  note T = encoder_skip_cache [where pools = "[100, 60, 30]" and convs = "[5, 16, 32, 64]"
      and fcs = None and blocks = 0 and global_pool = None and n_heads = None and max_dist = None
      and dropout = None and prio = None and as_is = None and dbl = None and pos = None and rel = None
      and enc = "projr ?X" and ops = symbolic_ops and fe = "Input 0" and meshes = "()" and w = 0
      and out = ?out and encoder_outs = ?outs and w' = 14]
  note C = T [THEN mp, OF conjI [OF init fwd]]
  from C have len: "length (enc_convs (projr ?X)) = 3"
    by simp
  have snap: "\<exists>fe_i w_i w1.
           MeshEncoder_convs_loop symbolic_ops () (take 1 (enc_convs (projr ?X))) (Input 0) [] 0
             = Inr ((fe_i, [Some ?s0]), w_i)
           \<and> down_stage_features symbolic_ops (enc_convs (projr ?X) ! 1) (fe_i, ()) w_i = Inr (?s1, w1)"
    using C [THEN conjunct2, THEN conjunct2, THEN conjunct2, rule_format, of 1 ?s1]
    by simp
  from init fwd len snap show ?thesis by blast
qed

subsection \<open>The fully-connected head\<close>

lemma py_index_last: "py_index xs (- 1) = Inr v \<longleftrightarrow> xs \<noteq> [] \<and> v = last xs"
proof -
  have "nat (int (length xs) - 1) = length xs - 1" by simp
  then show ?thesis
    by (cases xs rule: rev_cases) (auto simp: py_index_def nth_append)
qed

lemma py_index_first: "py_index xs 0 = Inr v \<longleftrightarrow> xs \<noteq> [] \<and> v = hd xs"
  by (cases xs) (auto simp: py_index_def)

lemma py_index_nat: "k < length xs \<Longrightarrow> py_index xs (int k) = Inr (xs ! k)"
  by (simp add: py_index_def)

lemma length_fc_layers: "length (fc_layers l fcs) = length fcs"
  by (induction fcs arbitrary: l) simp_all

lemma MeshEncoder_head_Inr:
  assumes "MeshEncoder_head pools convs fcs global_pool = Inr (gpool, linears, norms)"
  shows "fcs \<noteq> []"
    and "linears = fc_layers (case global_pool of None \<Rightarrow> last convs * last pools | Some g \<Rightarrow> last convs)
                     (if hd fcs = (case global_pool of None \<Rightarrow> last convs * last pools | Some g \<Rightarrow> last convs)
                      then drop 1 fcs else fcs)"
    and "norms = map InstanceNorm1d
                     (if hd fcs = (case global_pool of None \<Rightarrow> last convs * last pools | Some g \<Rightarrow> last convs)
                      then drop 1 fcs else fcs)"
    and "gpool = (case global_pool of None \<Rightarrow> None
                  | Some g \<Rightarrow> Some (if g = ''max'' then MaxPool1d (last pools) else AvgPool1d (last pools)))"
  using assms
  by (auto simp: MeshEncoder_head_def ebind_Inr_iff py_index_last py_index_first Let_def
           split: option.splits if_splits)

lemma MeshEncoder_init_head:
  "MeshEncoder_init pools convs (Some fcs) blocks global_pool n_heads max_dist dropout prio as_is dbl pos rel = Inr enc
   \<Longrightarrow> \<exists>linears. enc_fcs enc = Some linears \<and>
         MeshEncoder_head pools convs fcs global_pool = Inr (enc_global_pool enc, linears, enc_fcs_bn enc)"
  by (auto simp: MeshEncoder_init_def ebind_Inr_iff split: if_splits)

text \<open>
  C10.  When the first declared width of the head equals the flattened input length (the last
  channel count under a global pool, the last channel count times the last pool target
  otherwise), no linear layer and no normalization is built for it: the layers are those of
  the remaining widths, the first of them mapping from the input length to the second
  declared width.  (For contrast: a first width that differs gets a layer of its own.)
\<close>

theorem head_first_width_dropped:
  "(MeshEncoder_init pools convs (Some (f0 # rest)) blocks global_pool n_heads max_dist dropout prio
        as_is dbl pos rel = Inr enc
    \<and> f0 = (case global_pool of None \<Rightarrow> last convs * last pools | Some g \<Rightarrow> last convs)
    \<longrightarrow> enc_fcs enc = Some (fc_layers f0 rest)
      \<and> enc_fcs_bn enc = map InstanceNorm1d rest
      \<and> length (fc_layers f0 rest) = length rest
      \<and> (\<forall>f1 rest'. rest = f1 # rest' \<longrightarrow> enc_fcs enc = Some (Linear f0 f1 # fc_layers f1 rest')))
   \<and> (MeshEncoder_init pools convs (Some (f0 # rest)) blocks global_pool n_heads max_dist dropout prio
        as_is dbl pos rel = Inr enc
      \<and> f0 \<noteq> (case global_pool of None \<Rightarrow> last convs * last pools | Some g \<Rightarrow> last convs)
      \<longrightarrow> enc_fcs enc =
            Some (Linear (case global_pool of None \<Rightarrow> last convs * last pools | Some g \<Rightarrow> last convs) f0
                  # fc_layers f0 rest))"
proof (intro conjI impI; elim conjE)
  assume init: "MeshEncoder_init pools convs (Some (f0 # rest)) blocks global_pool n_heads max_dist dropout
      prio as_is dbl pos rel = Inr enc"
  from MeshEncoder_init_head [OF init] obtain linears where
    fcs: "enc_fcs enc = Some linears" and
    head: "MeshEncoder_head pools convs (f0 # rest) global_pool = Inr (enc_global_pool enc, linears, enc_fcs_bn enc)"
    by blast
  note facts = MeshEncoder_head_Inr [OF head]
  {
    assume eq: "f0 = (case global_pool of None \<Rightarrow> last convs * last pools | Some g \<Rightarrow> last convs)"
    from facts(2,3) eq [symmetric] fcs
    show "enc_fcs enc = Some (fc_layers f0 rest)" "enc_fcs_bn enc = map InstanceNorm1d rest"
      by simp_all
    then show "\<forall>f1 rest'. rest = f1 # rest' \<longrightarrow> enc_fcs enc = Some (Linear f0 f1 # fc_layers f1 rest')"
      by simp
    show "length (fc_layers f0 rest) = length rest"
      by (rule length_fc_layers)
  }
  {
    assume "f0 \<noteq> (case global_pool of None \<Rightarrow> last convs * last pools | Some g \<Rightarrow> last convs)"
    with facts(2) fcs
    show "enc_fcs enc =
            Some (Linear (case global_pool of None \<Rightarrow> last convs * last pools | Some g \<Rightarrow> last convs) f0
                  # fc_layers f0 rest)"
      by simp
  }
qed

theorem head_first_width_dropped_witness:
  "(\<exists>enc. MeshEncoder_init [100, 60] [5, 16] (Some [16, 10, 4]) 0 (Some ''avg'')
             None None None None None None None None = Inr enc
      \<and> enc_fcs enc = Some [Linear 16 10, Linear 10 4]
      \<and> enc_fcs_bn enc = [InstanceNorm1d 10, InstanceNorm1d 4])
   \<and> (\<exists>enc. MeshEncoder_init [100, 60] [5, 16] (Some [960, 10, 4]) 0 None
             None None None None None None None None = Inr enc
      \<and> enc_fcs enc = Some [Linear 960 10, Linear 10 4])
   \<and> (\<exists>enc. MeshEncoder_init [100, 60] [5, 16] (Some [17, 10, 4]) 0 (Some ''avg'')
             None None None None None None None None = Inr enc
      \<and> enc_fcs enc = Some [Linear 16 17, Linear 17 10, Linear 10 4])"
proof -
  let ?A = "MeshEncoder_init [100, 60] [5, 16] (Some [16, 10, 4]) 0 (Some ''avg'')
             None None None None None None None None"
  let ?B = "MeshEncoder_init [100, 60] [5, 16] (Some [960, 10, 4]) 0 None
             None None None None None None None None"
  let ?C = "MeshEncoder_init [100, 60] [5, 16] (Some [17, 10, 4]) 0 (Some ''avg'')
             None None None None None None None None"
  have "\<not> isl ?A" "\<not> isl ?B" "\<not> isl ?C" by code_simp+
  then have init: "?A = Inr (projr ?A)" "?B = Inr (projr ?B)" "?C = Inr (projr ?C)" by simp_all
  from head_first_width_dropped [where pools = "[100, 60]" and convs = "[5, 16]" and ?f0.0 = 16
      and rest = "[10, 4]" and blocks = 0 and global_pool = "Some ''avg''" and n_heads = None
      and max_dist = None and dropout = None and prio = None and as_is = None and dbl = None
      and pos = None and rel = None and enc = "projr ?A"] init(1)
  have a: "enc_fcs (projr ?A) = Some [Linear 16 10, Linear 10 4]"
    "enc_fcs_bn (projr ?A) = [InstanceNorm1d 10, InstanceNorm1d 4]"
    by simp_all
  from head_first_width_dropped [where pools = "[100, 60]" and convs = "[5, 16]" and ?f0.0 = 960
      and rest = "[10, 4]" and blocks = 0 and global_pool = None and n_heads = None
      and max_dist = None and dropout = None and prio = None and as_is = None and dbl = None
      and pos = None and rel = None and enc = "projr ?B"] init(2)
  have b: "enc_fcs (projr ?B) = Some [Linear 960 10, Linear 10 4]"
    by simp
  from head_first_width_dropped [where pools = "[100, 60]" and convs = "[5, 16]" and ?f0.0 = 17
      and rest = "[10, 4]" and blocks = 0 and global_pool = "Some ''avg''" and n_heads = None
      and max_dist = None and dropout = None and prio = None and as_is = None and dbl = None
      and pos = None and rel = None and enc = "projr ?C"] init(3)
  have c: "enc_fcs (projr ?C) = Some [Linear 16 17, Linear 17 10, Linear 10 4]"
    by simp
  from init a b c show ?thesis by blast
qed

lemma fcs_loop_layers:
  assumes len: "length fcs_bn = length fcs"
  shows "k \<le> length fcs \<Longrightarrow>
     MeshEncoder_fcs_loop ops fcs fcs_bn [k ..< length fcs] = fc_head_layers ops (drop k (zip fcs fcs_bn))"
proof (induction "length fcs - k" arbitrary: k)
  case 0
  then show ?case by (intro ext) (simp add: len)
next
  case (Suc d)
  then have k: "k < length fcs" and d: "d = length fcs - Suc k" and k': "Suc k \<le> length fcs"
    by simp_all
  from k len have bn: "fcs_bn \<noteq> []" by auto
  have upt: "[k ..< length fcs] = k # [Suc k ..< length fcs]"
    using k by (simp add: upt_conv_Cons)
  have drop: "drop k (zip fcs fcs_bn) = (fcs ! k, fcs_bn ! k) # drop (Suc k) (zip fcs fcs_bn)"
    using k len by (simp add: Cons_nth_drop_Suc [symmetric])
  have idx: "py_index fcs (int k) = Inr (fcs ! k)" "py_index fcs_bn (int k) = Inr (fcs_bn ! k)"
    using k len by (simp_all add: py_index_nat)
  note IH = Suc.hyps(1) [OF d k']
  consider (more) "Suc k < length fcs" | (final) "Suc k = length fcs"
    using k by linarith
  then show ?case
  proof cases
    case more
    then have "int k < int (length fcs) - 1" "drop (Suc k) (zip fcs fcs_bn) \<noteq> []"
      using len by simp_all
    then show ?thesis
      unfolding upt drop
      by (intro ext) (simp add: idx rlift_def rbind_rret rbind_assoc bn IH)
  next
    case final
    then have "\<not> int k < int (length fcs) - 1" "drop (Suc k) (zip fcs fcs_bn) = []"
      using len by simp_all
    then show ?thesis
      unfolding upt drop
      by (intro ext) (simp add: idx rlift_def rbind_rret rbind_assoc bn IH)
  qed
qed

lemma MeshEncoder_init_bn_length:
  assumes "MeshEncoder_init pools convs (Some fcs) blocks global_pool n_heads max_dist dropout prio as_is dbl pos rel = Inr enc"
  shows "length (enc_fcs_bn enc) = length (the (enc_fcs enc))"
proof -
  from MeshEncoder_init_head [OF assms] obtain linears where
    fcs: "enc_fcs enc = Some linears" and
    head: "MeshEncoder_head pools convs fcs global_pool = Inr (enc_global_pool enc, linears, enc_fcs_bn enc)"
    by blast
  from MeshEncoder_head_Inr(2,3) [OF head] fcs show ?thesis
    by (simp add: length_fc_layers)
qed

text \<open>
  C6, as the code has it.  With a fully-connected head, \<^verbatim>\<open>MeshEncoder.forward\<close> runs the
  stages, applies the global pool if one was configured, flattens, and then applies the
  linear layers in order, each one followed by its instance normalization, the final layer
  included; only the nonlinearity is left out after the final layer.
\<close>

theorem head_forward_layers:
  "MeshEncoder_init pools convs (Some fcs) blocks global_pool n_heads max_dist dropout prio as_is dbl
      pos rel = Inr enc
   \<longrightarrow> enc_fcs enc \<noteq> None
     \<and> length (enc_fcs_bn enc) = length (the (enc_fcs enc))
     \<and> enc_global_pool enc =
          (case global_pool of None \<Rightarrow> None
           | Some g \<Rightarrow> Some (if g = ''max'' then MaxPool1d (last pools) else AvgPool1d (last pools)))
     \<and> MeshEncoder_forward ops enc (fe, meshes) =
          rbind (MeshEncoder_convs_loop ops meshes (enc_convs enc) fe []) (\<lambda>(fe, encoder_outs).
          rbind (case enc_global_pool enc of None \<Rightarrow> rret fe | Some gp \<Rightarrow> nn_call ops gp fe) (\<lambda>fe.
          rbind (nn_call ops Contiguous_view fe) (\<lambda>fe.
          rbind (fc_head_layers ops (zip (the (enc_fcs enc)) (enc_fcs_bn enc)) fe) (\<lambda>fe.
          rret (fe, encoder_outs)))))"
proof
  assume init: "MeshEncoder_init pools convs (Some fcs) blocks global_pool n_heads max_dist dropout
      prio as_is dbl pos rel = Inr enc"
  from MeshEncoder_init_head [OF init] obtain linears where
    fcs: "enc_fcs enc = Some linears" and
    head: "MeshEncoder_head pools convs fcs global_pool = Inr (enc_global_pool enc, linears, enc_fcs_bn enc)"
    by blast
  have len: "length (enc_fcs_bn enc) = length linears"
    using MeshEncoder_init_bn_length [OF init] fcs by simp
  have loop: "MeshEncoder_fcs_loop ops linears (enc_fcs_bn enc) [0 ..< length linears]
                = fc_head_layers ops (zip linears (enc_fcs_bn enc))"
    using fcs_loop_layers [OF len, of 0 ops] by simp
  have "MeshEncoder_forward ops enc (fe, meshes) =
          rbind (MeshEncoder_convs_loop ops meshes (enc_convs enc) fe []) (\<lambda>(fe, encoder_outs).
          rbind (case enc_global_pool enc of None \<Rightarrow> rret fe | Some gp \<Rightarrow> nn_call ops gp fe) (\<lambda>fe.
          rbind (nn_call ops Contiguous_view fe) (\<lambda>fe.
          rbind (fc_head_layers ops (zip (the (enc_fcs enc)) (enc_fcs_bn enc)) fe) (\<lambda>fe.
          rret (fe, encoder_outs)))))"
    by (simp add: MeshEncoder_forward_def fcs loop)
  with fcs len MeshEncoder_head_Inr(4) [OF head]
  show "enc_fcs enc \<noteq> None
     \<and> length (enc_fcs_bn enc) = length (the (enc_fcs enc))
     \<and> enc_global_pool enc =
          (case global_pool of None \<Rightarrow> None
           | Some g \<Rightarrow> Some (if g = ''max'' then MaxPool1d (last pools) else AvgPool1d (last pools)))
     \<and> MeshEncoder_forward ops enc (fe, meshes) =
          rbind (MeshEncoder_convs_loop ops meshes (enc_convs enc) fe []) (\<lambda>(fe, encoder_outs).
          rbind (case enc_global_pool enc of None \<Rightarrow> rret fe | Some gp \<Rightarrow> nn_call ops gp fe) (\<lambda>fe.
          rbind (nn_call ops Contiguous_view fe) (\<lambda>fe.
          rbind (fc_head_layers ops (zip (the (enc_fcs enc)) (enc_fcs_bn enc)) fe) (\<lambda>fe.
          rret (fe, encoder_outs)))))"
    by simp
qed

theorem head_forward_layers_witness:
  "\<exists>enc. MeshEncoder_init [100, 60] [5, 16, 32] (Some [10, 4]) 0 (Some ''avg'')
            None None None None None None None None = Inr enc
     \<and> MeshEncoder_forward symbolic_ops enc (Input 0, ()) 0
        = Inr ((Call (Squeeze 1) (Call (InstanceNorm1d 4) (Call (Unsqueeze 1) (Call (Linear 10 4)
                 (Call F_relu (Call (Squeeze 1) (Call (InstanceNorm1d 10) (Call (Unsqueeze 1)
                   (Call (Linear 32 10) (Call Contiguous_view (Call (AvgPool1d 60)
                     (Call (Squeeze 3) (Call F_relu (Call (InstanceNorm2d 32) (Conv (MeshConv 16 32)
                       (Pool 60 (Call (Squeeze 3) (Call F_relu (Call (InstanceNorm2d 16)
                          (Conv (MeshConv 5 16) (Input 0))))) None))))))))))))))),
                [Some (Call (Squeeze 3) (Call F_relu (Call (InstanceNorm2d 16) (Conv (MeshConv 5 16) (Input 0))))),
                 None]), 20)"
proof -
  let ?X = "MeshEncoder_init [100, 60] [5, 16, 32] (Some [10, 4]) 0 (Some ''avg'')
            None None None None None None None None"
  have "\<not> isl ?X" by code_simp
  then have init: "?X = Inr (projr ?X)" by simp
  note T = head_forward_layers [where pools = "[100, 60]" and convs = "[5, 16, 32]" and fcs = "[10, 4]"
      and blocks = 0 and global_pool = "Some ''avg''" and n_heads = None and max_dist = None
      and dropout = None and prio = None and as_is = None and dbl = None and pos = None and rel = None
      and enc = "projr ?X" and ops = symbolic_ops and fe = "Input 0" and meshes = "()"]
  note E = T [THEN mp, OF init, THEN conjunct2, THEN conjunct2, THEN conjunct2]
  have "MeshEncoder_forward symbolic_ops (projr ?X) (Input 0, ()) 0
        = Inr ((Call (Squeeze 1) (Call (InstanceNorm1d 4) (Call (Unsqueeze 1) (Call (Linear 10 4)
                 (Call F_relu (Call (Squeeze 1) (Call (InstanceNorm1d 10) (Call (Unsqueeze 1)
                   (Call (Linear 32 10) (Call Contiguous_view (Call (AvgPool1d 60)
                     (Call (Squeeze 3) (Call F_relu (Call (InstanceNorm2d 32) (Conv (MeshConv 16 32)
                       (Pool 60 (Call (Squeeze 3) (Call F_relu (Call (InstanceNorm2d 16)
                          (Conv (MeshConv 5 16) (Input 0))))) None))))))))))))))),
                [Some (Call (Squeeze 3) (Call F_relu (Call (InstanceNorm2d 16) (Conv (MeshConv 5 16) (Input 0))))),
                 None]), 20)"
    by (subst E) code_simp
  with init show ?thesis by blast
qed

text \<open>
  C6 as stated fails: with a head of one linear layer, the encoder's output is that layer's
  result passed through the instance normalization, whereas the head as the specification
  words it ends with the linear layer itself.
\<close>

theorem head_norm_after_final_counterexample:
  "\<exists>enc. MeshEncoder_init [100, 60] [5, 16] (Some [10]) 0 (Some ''avg'')
            None None None None None None None None = Inr enc
     \<and> enc_fcs enc = Some [Linear 16 10]
     \<and> enc_fcs_bn enc = [InstanceNorm1d 10]
     \<and> MeshEncoder_forward symbolic_ops enc (Input 0, ()) 0
        = Inr ((Call (Squeeze 1) (Call (InstanceNorm1d 10) (Call (Unsqueeze 1) (Call (Linear 16 10)
                 (Call Contiguous_view (Call (AvgPool1d 60)
                   (Pool 60 (Call (Squeeze 3) (Call F_relu (Call (InstanceNorm2d 16)
                      (Conv (MeshConv 5 16) (Input 0))))) None)))))),
                [Some (Call (Squeeze 3) (Call F_relu (Call (InstanceNorm2d 16) (Conv (MeshConv 5 16) (Input 0)))))]),
               11)
     \<and> MeshEncoder_fcs_loop symbolic_ops [Linear 16 10] [InstanceNorm1d 10] [0 ..< 1] (Input 1) 0
        = Inr (Call (Squeeze 1) (Call (InstanceNorm1d 10) (Call (Unsqueeze 1) (Call (Linear 16 10) (Input 1)))), 4)
     \<and> fc_head_spec symbolic_ops (zip [Linear 16 10] [InstanceNorm1d 10]) (Input 1) 0
        = Inr (Call (Linear 16 10) (Input 1), 1)
     \<and> MeshEncoder_fcs_loop symbolic_ops [Linear 16 10] [InstanceNorm1d 10] [0 ..< 1] (Input 1) 0
        \<noteq> fc_head_spec symbolic_ops (zip [Linear 16 10] [InstanceNorm1d 10]) (Input 1) 0"
proof -
  let ?X = "MeshEncoder_init [100, 60] [5, 16] (Some [10]) 0 (Some ''avg'')
            None None None None None None None None"
  have "\<not> isl ?X" by code_simp
  then have init: "?X = Inr (projr ?X)" by simp
  have layers: "enc_fcs (projr ?X) = Some [Linear 16 10]" "enc_fcs_bn (projr ?X) = [InstanceNorm1d 10]"
    by code_simp+
  have fwd: "MeshEncoder_forward symbolic_ops (projr ?X) (Input 0, ()) 0
        = Inr ((Call (Squeeze 1) (Call (InstanceNorm1d 10) (Call (Unsqueeze 1) (Call (Linear 16 10)
                 (Call Contiguous_view (Call (AvgPool1d 60)
                   (Pool 60 (Call (Squeeze 3) (Call F_relu (Call (InstanceNorm2d 16)
                      (Conv (MeshConv 5 16) (Input 0))))) None)))))),
                [Some (Call (Squeeze 3) (Call F_relu (Call (InstanceNorm2d 16) (Conv (MeshConv 5 16) (Input 0)))))]),
               11)"
    by code_simp
  have code: "MeshEncoder_fcs_loop symbolic_ops [Linear 16 10] [InstanceNorm1d 10] [0 ..< 1] (Input 1) 0
        = Inr (Call (Squeeze 1) (Call (InstanceNorm1d 10) (Call (Unsqueeze 1) (Call (Linear 16 10) (Input 1)))), 4)"
    by code_simp
  have spec: "fc_head_spec symbolic_ops (zip [Linear 16 10] [InstanceNorm1d 10]) (Input 1) 0
        = Inr (Call (Linear 16 10) (Input 1), 1)"
    by code_simp
  from code spec
  have "MeshEncoder_fcs_loop symbolic_ops [Linear 16 10] [InstanceNorm1d 10] [0 ..< 1] (Input 1) 0
        \<noteq> fc_head_spec symbolic_ops (zip [Linear 16 10] [InstanceNorm1d 10]) (Input 1) 0"
    by simp
  with init layers fwd code spec show ?thesis by blast
qed

subsection \<open>Schedule lengths at construction\<close>























lemma MeshConvNet_init_group_mismatch:
  "MeshConvNet_init (GroupNorm_partial 3) 5 [16] 30 750 [600] 100 1
     = Inl (ValueError ''num_channels must be divisible by num_groups'')"
  by (simp add: MeshConvNet_init_def MeshConvNet_layer_def get_norm_args_def norm_layer_call_def
        py_index_def ebind_def)




end
